theory Spec2Isabelle
  imports Main
begin

section \<open>Chunked transfer in pyvcloud's \<open>Org\<close> class (\<open>pyvcloud/vcd/org.py\<close>)\<close>

text \<open>
  The development embeds the three transfer methods of class \<open>Org\<close>:
  \<open>upload_file\<close>, \<open>upload_ovf\<close> and \<open>download_catalog_item\<close>, with the helpers
  \<open>get_catalog\<close> and \<open>get_catalog_item\<close> they call. The methods act on the local file
  system and talk to a server through a client object; both are explicit here: a record
  \<open>world\<close> that every operation takes and returns, and a record \<open>client\<close> of the
  replies of the collaborator (module \<open>pyvcloud.vcd.client\<close>, which is not part of the
  sources at hand, so its replies are parameters). A raised exception is a value
  \<open>Inl e\<close>; a loop that may run forever is a \<open>partial_function\<close> whose value
  \<open>None\<close> means that the call never returns.
\<close>

subsection \<open>Python values, errors and documents\<close>

type_synonym bytes = "char list"

text \<open>
  The values that travel untyped through the code: an attribute read with lxml's \<open>get\<close> is a
  \<open>str\<close> or \<open>None\<close>, a byte count is an \<open>int\<close>. Python's \<open>==\<close> and \<open>!=\<close> on these
  are the equality of this type: an \<open>int\<close> never equals a \<open>str\<close>, and \<open>None\<close> equals
  only \<open>None\<close>.
\<close>

datatype pyval = PyNone | PyStr string | PyInt int

datatype error =
    Exception string        \<comment> \<open>\<open>raise Exception(msg)\<close>\<close>
  | AttributeError string   \<comment> \<open>objectify lookup of a child that does not exist\<close>
  | TypeError               \<comment> \<open>a path operation on a value that is not a string\<close>
  | ValueError              \<comment> \<open>a string that lxml does not accept in a document\<close>
  | OSError string          \<comment> \<open>a file system call on a path that does not fit\<close>
  | LibraryError string     \<comment> \<open>raised inside tarfile or lxml when parsing\<close>
  | ClientError string      \<comment> \<open>raised inside the client (HTTP failure, task timeout)\<close>
  | KeyboardInterrupt       \<comment> \<open>the user's interrupt, delivered while a call waits\<close>
  | SystemExit              \<comment> \<open>\<open>sys.exit()\<close> called below the method\<close>

text \<open>
  \<open>isinstance(e, Exception)\<close>: what a handler \<open>except Exception\<close> catches.
  \<open>KeyboardInterrupt\<close> and \<open>SystemExit\<close> derive from \<open>BaseException\<close> only and pass it.
\<close>

fun is_Exception :: "error \<Rightarrow> bool" where
  "is_Exception KeyboardInterrupt = False"
| "is_Exception SystemExit = False"
| "is_Exception e = True"

text \<open>
  An XML element as lxml holds it: tag, attributes, text and child elements. The tags are
  written without their namespace: objectify looks a child up in the namespace of its
  parent.
\<close>

datatype xml = Elem (tag: string) (attrs: "(string \<times> string) list") (body: string) (children: "xml list")

text \<open>\<open>e.get(key)\<close>: the attribute's value, or \<open>None\<close>.\<close>

definition get :: "xml \<Rightarrow> string \<Rightarrow> pyval" where
  "get e k = (case map_of (attrs e) k of None \<Rightarrow> PyNone | Some v \<Rightarrow> PyStr v)"

text \<open>
  \<open>e.Name\<close> in lxml.objectify is the first child of \<open>e\<close> with that tag and raises
  \<open>AttributeError\<close> when there is none; iterating over \<open>e.Name\<close>, and \<open>len(e.Name)\<close>, range
  over all the children of \<open>e\<close> with that tag. \<open>named e t\<close> is that sequence, \<open>child e t\<close>
  the lookup, \<open>each e t\<close> the lookup followed by the iteration.
\<close>

definition named :: "xml \<Rightarrow> string \<Rightarrow> xml list" where
  "named e t = filter (\<lambda>c. tag c = t) (children e)"

definition child :: "xml \<Rightarrow> string \<Rightarrow> error + xml" where
  "child e t = (case named e t of [] \<Rightarrow> Inl (AttributeError t) | c # cs \<Rightarrow> Inr c)"

definition each :: "xml \<Rightarrow> string \<Rightarrow> error + xml list" where
  "each e t = (case named e t of [] \<Rightarrow> Inl (AttributeError t) | c # cs \<Rightarrow> Inr (c # cs))"

subsection \<open>Formatting and paths\<close>

text \<open>\<open>'%s' % n\<close> for an integer: its decimal digits, with a sign when negative.\<close>

definition digit :: "nat \<Rightarrow> char" where
  "digit d = ''0123456789'' ! d"

function str_nat :: "nat \<Rightarrow> string" where
  "str_nat n = (if n < 10 then [digit n] else str_nat (n div 10) @ [digit (n mod 10)])"
  by pat_completeness auto
termination
  by (relation "measure id") auto

definition str_int :: "int \<Rightarrow> string" where
  "str_int i = (if i < 0 then CHR ''-'' # str_nat (nat (- i)) else str_nat (nat i))"

text \<open>\<open>posixpath.join(a, b)\<close>; a \<open>b\<close> that is not a string raises.\<close>

definition join_str :: "string \<Rightarrow> string \<Rightarrow> string" where
  "join_str a b =
     (if b \<noteq> [] \<and> hd b = CHR ''/'' then b
      else if a = [] \<or> last a = CHR ''/'' then a @ b
      else a @ CHR ''/'' # b)"

definition path_join :: "string \<Rightarrow> pyval \<Rightarrow> error + string" where
  "path_join a b = (case b of PyStr s \<Rightarrow> Inr (join_str a s) | _ \<Rightarrow> Inl TypeError)"

text \<open>\<open>os.path.basename(p)\<close>: what follows the last slash.\<close>

definition basename :: "string \<Rightarrow> string" where
  "basename p = rev (takeWhile (\<lambda>c. c \<noteq> CHR ''/'') (rev p))"

text \<open>
  The extension \<open>os.path.splitext(f)[1]\<close> of a directory entry \<open>f\<close> (a name without slash):
  from the last dot on, unless only dots come before it.
\<close>

definition splitext_ext :: "string \<Rightarrow> string" where
  "splitext_ext f =
     (let body = dropWhile (\<lambda>c. c = CHR ''.'') f in
      if CHR ''.'' \<in> set body
      then CHR ''.'' # rev (takeWhile (\<lambda>c. c \<noteq> CHR ''.'') (rev body))
      else [])"

subsection \<open>The world: file system, clock, output, and the requests sent\<close>

text \<open>
  A file has the size \<open>os.stat\<close> reports and the bytes that reading it yields. For a regular
  file that nothing else touches, \<open>st_size\<close> is the length of \<open>data\<close>, and every file the
  model writes is so; the two are separate fields because the code reads them through
  separate calls, and they differ for a file truncated after the \<open>stat\<close> or for a sysfs
  entry.
\<close>

record fsfile =
  st_size :: nat
  data :: bytes

definition regular :: "bytes \<Rightarrow> fsfile" where
  "regular bs = \<lparr>st_size = length bs, data = bs\<rparr>"

text \<open>
  The enumerations \<open>RelationType\<close> and \<open>EntityType\<close> of the client module, as far as
  this class names them. The strings behind \<open>EntityType.X.value\<close> are the client's
  (field \<open>entity_type_value\<close> below).
\<close>

datatype RelationType = DOWN | DOWNLOAD_DEFAULT

datatype EntityType = CATALOG | MEDIA | VAPP_TEMPLATE | TEXT_XML | UPLOAD_VAPP_TEMPLATE_PARAMS

text \<open>A link object as \<open>get_links\<close> and \<open>find_link\<close> return it.\<close>

record link =
  link_name :: pyval
  link_href :: pyval

datatype request =
    Get pyval                          \<comment> \<open>\<open>get_resource(uri)\<close>\<close>
  | Post pyval "xml option" pyval      \<comment> \<open>\<open>post_resource(uri, contents, media_type)\<close>\<close>
  | Put pyval xml string               \<comment> \<open>\<open>put_resource(uri, contents, media_type)\<close>\<close>
  | Fragment pyval bytes string        \<comment> \<open>\<open>upload_fragment(uri, contents, range_str)\<close>\<close>
  | Download pyval string int pyval    \<comment> \<open>\<open>download_from_uri(uri, file_name, chunk_size, size)\<close>\<close>
  | WaitTask xml                       \<comment> \<open>\<open>wait_for_success(task, 60, 1)\<close>\<close>
  | LinkedResource xml RelationType string   \<comment> \<open>\<open>get_linked_resource(resource, rel, media_type)\<close>\<close>

record world =
  files :: "(string \<times> fsfile) list"   \<comment> \<open>the files, by absolute path\<close>
  dirs :: "string list"              \<comment> \<open>the directories, by absolute path\<close>
  cwd :: string                      \<comment> \<open>the working directory of the process\<close>
  tmp_names :: "string list"         \<comment> \<open>the names \<open>mkdtemp\<close> will draw\<close>
  clock :: nat                       \<comment> \<open>seconds slept\<close>
  printed :: "error list"            \<comment> \<open>the exceptions whose traceback was printed\<close>
  progress :: "(int \<times> int) list"     \<comment> \<open>the calls of the caller's \<open>callback\<close> made by this class\<close>
  sent :: "request list"             \<comment> \<open>the requests made through the client\<close>

type_synonym 'a result = "(error + 'a) \<times> world"

text \<open>
  The collaborator, module \<open>pyvcloud.vcd.client\<close>. Each reply may depend on everything
  sent before (\<open>sent\<close>), so a server whose answers change while it is polled is covered.
  A download replies with the bytes it stores in the local file and with the value it
  returns. What the client itself does with the caller's \<open>callback\<close> is not recorded.
  A reply may be any exception, also one that is not derived from \<open>Exception\<close>: an
  interrupt reaches the method as the exception of the call it was waiting in.
\<close>

record client =
  get_resource_reply :: "request list \<Rightarrow> pyval \<Rightarrow> error + xml"
  post_resource_reply :: "request list \<Rightarrow> pyval \<Rightarrow> xml option \<Rightarrow> pyval \<Rightarrow> error + xml"
  put_resource_reply :: "request list \<Rightarrow> pyval \<Rightarrow> xml \<Rightarrow> string \<Rightarrow> error option"
  upload_fragment_reply :: "request list \<Rightarrow> pyval \<Rightarrow> bytes \<Rightarrow> string \<Rightarrow> error option"
  download_from_uri_reply :: "request list \<Rightarrow> pyval \<Rightarrow> pyval \<Rightarrow> error + bytes \<times> pyval"
  wait_for_success_reply :: "request list \<Rightarrow> xml \<Rightarrow> error option"
  get_linked_resource_reply :: "request list \<Rightarrow> xml \<Rightarrow> RelationType \<Rightarrow> string \<Rightarrow> error + xml"
  get_links :: "xml \<Rightarrow> RelationType \<Rightarrow> string \<Rightarrow> link list"
  find_link :: "xml \<Rightarrow> RelationType \<Rightarrow> string \<Rightarrow> error + link"
  entity_type_value :: "EntityType \<Rightarrow> string"

text \<open>
  The libraries \<open>tarfile\<close> and \<open>lxml\<close>: the members an archive's bytes decode to, the
  bytes of an archive with given members, the document some bytes parse to, and the bytes
  \<open>etree.tostring\<close> prints for a document.
\<close>

record library =
  tar_members :: "bytes \<Rightarrow> error + (string \<times> bytes) list"
  tar_archive :: "(string \<times> bytes) list \<Rightarrow> bytes"
  parse :: "bytes \<Rightarrow> error + xml"
  tostring :: "xml \<Rightarrow> bytes"

text \<open>The object \<open>self\<close>, with the fields the transfer methods read.\<close>

record Org =
  client :: client
  endpoint :: pyval

subsection \<open>File system calls\<close>

text \<open>A relative path is resolved against the working directory.\<close>

definition abspath :: "world \<Rightarrow> string \<Rightarrow> string" where
  "abspath w p = join_str (cwd w) p"

definition lookup_file :: "world \<Rightarrow> string \<Rightarrow> fsfile option" where
  "lookup_file w p = map_of (files w) (abspath w p)"

definition is_dir :: "world \<Rightarrow> string \<Rightarrow> bool" where
  "is_dir w p = (abspath w p \<in> set (dirs w))"

definition path_exists :: "world \<Rightarrow> string \<Rightarrow> bool" where
  "path_exists w p = (is_dir w p \<or> lookup_file w p \<noteq> None)"

text \<open>\<open>under d p\<close>: the absolute path \<open>p\<close> is the directory \<open>d\<close> or lies below it.\<close>

definition under :: "string \<Rightarrow> string \<Rightarrow> bool" where
  "under d p = (p = d \<or> take (Suc (length d)) p = d @ ''/'')"

text \<open>\<open>os.stat(p)\<close>: the file's record, or \<open>OSError\<close> when there is no such file.\<close>

definition os_stat :: "world \<Rightarrow> string \<Rightarrow> error + fsfile" where
  "os_stat w p = (case lookup_file w p of None \<Rightarrow> Inl (OSError p) | Some f \<Rightarrow> Inr f)"

text \<open>Reading a whole file, as \<open>tarfile.open(p)\<close> and \<open>objectify.parse(p)\<close> do first.\<close>

definition read_file :: "world \<Rightarrow> string \<Rightarrow> error + bytes" where
  "read_file w p = (case lookup_file w p of None \<Rightarrow> Inl (OSError p) | Some f \<Rightarrow> Inr (data f))"

text \<open>
  Creating or replacing a file with given bytes (\<open>open(p, 'wb')\<close>, \<open>write\<close>, close).
  Writing is taken to succeed.
\<close>

definition write_abs :: "world \<Rightarrow> string \<Rightarrow> bytes \<Rightarrow> world" where
  "write_abs w q bs = w\<lparr>files := (q, regular bs) # filter (\<lambda>(q1, f). q1 \<noteq> q) (files w)\<rparr>"

definition write_file :: "world \<Rightarrow> string \<Rightarrow> bytes \<Rightarrow> world" where
  "write_file w p bs = write_abs w (abspath w p) bs"

text \<open>
  \<open>tempfile.mkdtemp(dir='.')\<close>: the first drawn name that nothing in the working
  directory bears becomes a new directory, and \<open>'./'\<close> followed by the name is returned;
  when the names run out the call raises.
\<close>

definition mkdtemp :: "world \<Rightarrow> string result" where
  "mkdtemp w =
     (case dropWhile (\<lambda>n. path_exists w (join_str ''.'' n)) (tmp_names w) of
        [] \<Rightarrow> (Inl (OSError ''.''), w\<lparr>tmp_names := []\<rparr>)
      | n # ns \<Rightarrow> (Inr (join_str ''.'' n),
                   w\<lparr>dirs := abspath w (join_str ''.'' n) # dirs w, tmp_names := ns\<rparr>))"

text \<open>\<open>shutil.rmtree(p)\<close>: the directory goes with everything below it.\<close>

definition rmtree :: "string \<Rightarrow> world \<Rightarrow> unit result" where
  "rmtree p w =
     (if is_dir w p
      then (Inr (), w\<lparr>files := filter (\<lambda>(q, f). \<not> under (abspath w p) q) (files w),
                       dirs := filter (\<lambda>q. \<not> under (abspath w p) q) (dirs w)\<rparr>)
      else (Inl (OSError p), w))"

text \<open>\<open>os.chdir(p)\<close>\<close>

definition chdir :: "string \<Rightarrow> world \<Rightarrow> unit result" where
  "chdir p w = (if is_dir w p then (Inr (), w\<lparr>cwd := abspath w p\<rparr>) else (Inl (OSError p), w))"

text \<open>
  \<open>os.listdir(p)\<close>: the first path component, below \<open>p\<close>, of every file below \<open>p\<close>.
  The order of the listing is the one of the file table.
\<close>

definition listdir :: "world \<Rightarrow> string \<Rightarrow> error + string list" where
  "listdir w p =
     (if is_dir w p
      then Inr (remdups
             (map (\<lambda>q. takeWhile (\<lambda>c. c \<noteq> CHR ''/'') (drop (Suc (length (abspath w p))) q))
               (filter (\<lambda>q. q \<noteq> abspath w p \<and> under (abspath w p) q) (map fst (files w)))))
      else Inl (OSError p))"

text \<open>
  \<open>ova = tarfile.open(file_name)\<close> and \<open>ova.extractall(path=tempdir)\<close>: the archive must
  be there and decode; each member is then written below the directory. Members are taken
  to be plain files. A member named \<open>./x\<close> lands where one named \<open>x\<close> does.
\<close>

fun member_name :: "string \<Rightarrow> string" where
  "member_name (a # b # n) =
     (if a = CHR ''.'' \<and> b = CHR ''/'' then member_name n else a # b # n)"
| "member_name n = n"

definition tarfile_open :: "library \<Rightarrow> string \<Rightarrow> world \<Rightarrow> error + (string \<times> bytes) list" where
  "tarfile_open lib file_name w =
     (case read_file w file_name of Inl e \<Rightarrow> Inl e | Inr bs \<Rightarrow> tar_members lib bs)"

fun extractall :: "(string \<times> bytes) list \<Rightarrow> string \<Rightarrow> world \<Rightarrow> world" where
  "extractall [] path w = w"
| "extractall ((n, bs) # ms) path w =
     extractall ms path (write_file w (join_str path (member_name n)) bs)"

subsection \<open>Calls of the client\<close>

definition get_resource :: "client \<Rightarrow> pyval \<Rightarrow> world \<Rightarrow> xml result" where
  "get_resource cl uri w = (get_resource_reply cl (sent w) uri, w\<lparr>sent := sent w @ [Get uri]\<rparr>)"

definition post_resource :: "client \<Rightarrow> pyval \<Rightarrow> xml option \<Rightarrow> pyval \<Rightarrow> world \<Rightarrow> xml result" where
  "post_resource cl uri contents media_type w =
     (post_resource_reply cl (sent w) uri contents media_type,
      w\<lparr>sent := sent w @ [Post uri contents media_type]\<rparr>)"

definition put_resource :: "client \<Rightarrow> pyval \<Rightarrow> xml \<Rightarrow> string \<Rightarrow> world \<Rightarrow> unit result" where
  "put_resource cl uri contents media_type w =
     (case put_resource_reply cl (sent w) uri contents media_type of
        Some e \<Rightarrow> (Inl e, w\<lparr>sent := sent w @ [Put uri contents media_type]\<rparr>)
      | None \<Rightarrow> (Inr (), w\<lparr>sent := sent w @ [Put uri contents media_type]\<rparr>))"

definition upload_fragment :: "client \<Rightarrow> pyval \<Rightarrow> bytes \<Rightarrow> string \<Rightarrow> world \<Rightarrow> unit result" where
  "upload_fragment cl href my_bytes rng w =
     (case upload_fragment_reply cl (sent w) href my_bytes rng of
        Some e \<Rightarrow> (Inl e, w\<lparr>sent := sent w @ [Fragment href my_bytes rng]\<rparr>)
      | None \<Rightarrow> (Inr (), w\<lparr>sent := sent w @ [Fragment href my_bytes rng]\<rparr>))"

text \<open>
  \<open>download_from_uri(uri, file_name, chunk_size=.., size=.., callback=..)\<close>: the client
  stores what it received in the local file and returns a value.
\<close>

definition download_from_uri ::
  "client \<Rightarrow> pyval \<Rightarrow> string \<Rightarrow> int \<Rightarrow> pyval \<Rightarrow> bool \<Rightarrow> world \<Rightarrow> pyval result"
where
  "download_from_uri cl uri file_name chunk_size sz callback w =
     (case download_from_uri_reply cl (sent w) uri sz of
        Inl e \<Rightarrow> (Inl e, w\<lparr>sent := sent w @ [Download uri file_name chunk_size sz]\<rparr>)
      | Inr (bs, num_bytes) \<Rightarrow>
          (Inr num_bytes,
           write_file (w\<lparr>sent := sent w @ [Download uri file_name chunk_size sz]\<rparr>) file_name bs))"

definition wait_for_success :: "client \<Rightarrow> xml \<Rightarrow> world \<Rightarrow> unit result" where
  "wait_for_success cl task w =
     (case wait_for_success_reply cl (sent w) task of
        Some e \<Rightarrow> (Inl e, w\<lparr>sent := sent w @ [WaitTask task]\<rparr>)
      | None \<Rightarrow> (Inr (), w\<lparr>sent := sent w @ [WaitTask task]\<rparr>))"

definition get_linked_resource :: "client \<Rightarrow> xml \<Rightarrow> RelationType \<Rightarrow> string \<Rightarrow> world \<Rightarrow> xml result" where
  "get_linked_resource cl resource rel media_type w =
     (get_linked_resource_reply cl (sent w) resource rel media_type,
      w\<lparr>sent := sent w @ [LinkedResource resource rel media_type]\<rparr>)"

subsection \<open>\<open>upload_file\<close>\<close>

text \<open>
  \<open>f.read(n)\<close> on a file opened \<open>'rb'\<close>, given the bytes not yet read: up to \<open>n\<close> of them,
  and all of them when \<open>n\<close> is negative.
\<close>

definition f_read :: "int \<Rightarrow> bytes \<Rightarrow> bytes" where
  "f_read n rest = (if n < 0 then rest else take (nat n) rest)"

text \<open>\<open>'bytes %s-%s/%s' % (transferred, len(my_bytes)-1, stat_info.st_size)\<close>\<close>

definition range_str :: "nat \<Rightarrow> bytes \<Rightarrow> nat \<Rightarrow> string" where
  "range_str transferred my_bytes file_size =
     ''bytes '' @ str_int (int transferred) @ ''-'' @ str_int (int (length my_bytes) - 1)
       @ ''/'' @ str_int (int file_size)"

text \<open>
  \<open>if callback is not None: callback(transferred, stat_info.st_size)\<close>. The caller's
  function is taken to return; the call is recorded.
\<close>

definition call_back :: "bool \<Rightarrow> nat \<Rightarrow> nat \<Rightarrow> world \<Rightarrow> world" where
  "call_back callback transferred file_size w =
     (if callback then w\<lparr>progress := progress w @ [(int transferred, int file_size)]\<rparr> else w)"

text \<open>
  The \<open>while\<close> loop of \<open>upload_file\<close>. Its state is the count \<open>transferred\<close>, the bytes of
  the open file not yet read, and the world.
\<close>

partial_function (option) upload_loop ::
  "client \<Rightarrow> pyval \<Rightarrow> int \<Rightarrow> bool \<Rightarrow> nat \<Rightarrow> bytes \<Rightarrow> nat \<Rightarrow> world \<Rightarrow> nat result option"
where
  "upload_loop cl href chunk_size callback file_size rest transferred w =
     (if transferred < file_size then
        (if int (length (f_read chunk_size rest)) \<le> chunk_size then
           (case upload_fragment cl href (f_read chunk_size rest)
                   (range_str transferred (f_read chunk_size rest) file_size) w of
              (Inl e, w1) \<Rightarrow> Some (Inl e, w1)
            | (Inr u, w1) \<Rightarrow>
                upload_loop cl href chunk_size callback file_size
                  (drop (length (f_read chunk_size rest)) rest)
                  (transferred + length (f_read chunk_size rest))
                  (call_back callback (transferred + length (f_read chunk_size rest)) file_size w1))
         else
           upload_loop cl href chunk_size callback file_size
             (drop (length (f_read chunk_size rest)) rest) transferred w)
      else Some (Inr transferred, w))"

declare upload_loop.simps [code]

definition upload_file ::
  "Org \<Rightarrow> string \<Rightarrow> pyval \<Rightarrow> int \<Rightarrow> bool \<Rightarrow> world \<Rightarrow> nat result option"
where
  "upload_file self file_name href chunk_size callback w =
     (case os_stat w file_name of
        Inl e \<Rightarrow> Some (Inl e, w)
      | Inr stat_info \<Rightarrow>
          upload_loop (client self) href chunk_size callback
            (st_size stat_info) (data stat_info) 0 w)"

subsection \<open>\<open>get_catalog\<close> and \<open>get_catalog_item\<close>\<close>

text \<open>\<open>a + b\<close> for a value \<open>a\<close> and a string \<open>b\<close>: only a string can be extended.\<close>

definition str_add :: "pyval \<Rightarrow> string \<Rightarrow> error + pyval" where
  "str_add a b = (case a of PyStr s \<Rightarrow> Inr (PyStr (s @ b)) | _ \<Rightarrow> Inl TypeError)"

definition get_catalog :: "Org \<Rightarrow> string \<Rightarrow> world \<Rightarrow> xml result" where
  "get_catalog self name w =
     (case get_resource (client self) (endpoint self) w of
        (Inl e, w1) \<Rightarrow> (Inl e, w1)
      | (Inr org, w1) \<Rightarrow>
          (case find (\<lambda>l. PyStr name = link_name l)
                  (get_links (client self) org DOWN (entity_type_value (client self) CATALOG)) of
             Some l \<Rightarrow> get_resource (client self) (link_href l) w1
           | None \<Rightarrow> (Inl (Exception ''Catalog not found.''), w1)))"

definition get_catalog_item :: "Org \<Rightarrow> string \<Rightarrow> string \<Rightarrow> world \<Rightarrow> xml result" where
  "get_catalog_item self name item_name w =
     (case get_catalog self name w of
        (Inl e, w1) \<Rightarrow> (Inl e, w1)
      | (Inr catalog, w1) \<Rightarrow>
          (case child catalog ''CatalogItems'' of
             Inl e \<Rightarrow> (Inl e, w1)
           | Inr items \<Rightarrow>
               (case find (\<lambda>i. get i ''name'' = PyStr item_name) (children items) of
                  Some i \<Rightarrow> get_resource (client self) (get i ''href'') w1
                | None \<Rightarrow> (Inl (Exception ''Catalog item not found.''), w1))))"

subsection \<open>\<open>upload_ovf\<close>\<close>

text \<open>The dictionary built for each \<open>File\<close> element of a descriptor's \<open>References\<close>.\<close>

record source_file =
  sf_href :: pyval
  sf_name :: pyval
  sf_size :: pyval

definition ns :: string where
  "ns = ''{http://schemas.dmtf.org/ovf/envelope/1}''"

definition source_file_of :: "xml \<Rightarrow> source_file" where
  "source_file_of f =
     \<lparr>sf_href = get f (ns @ ''href''), sf_name = get f (ns @ ''id''),
      sf_size = get f (ns @ ''size'')\<rparr>"

text \<open>
  The search for the descriptor among the extracted names: the first one with extension
  \<open>.ovf\<close>, joined to the directory, or \<open>None\<close>.
\<close>

fun find_ovf :: "string \<Rightarrow> string list \<Rightarrow> string option" where
  "find_ovf tempdir [] = None"
| "find_ovf tempdir (f # fs) =
     (if splitext_ext f = ''.ovf'' then Some (join_str tempdir f) else find_ovf tempdir fs)"

text \<open>
  \<open>Maker.UploadVAppTemplateParams(name=item_name)\<close> with its \<open>Description\<close> appended.
  lxml takes only strings without control characters (tab, line feed and carriage return
  apart) and raises \<open>ValueError\<close> for any other.
\<close>

definition xml_char :: "char \<Rightarrow> bool" where
  "xml_char c =
     (if (32::nat) \<le> of_char c then True else c \<in> set [CHR 0x09, CHR 0x0A, CHR 0x0D])"

definition upload_params :: "string \<Rightarrow> string \<Rightarrow> error + xml" where
  "upload_params item_name description =
     (if list_all xml_char item_name
      then (if list_all xml_char description
            then Inr (Elem ''UploadVAppTemplateParams'' [(''name'', item_name)] []
                        [Elem ''Description'' [] description []])
            else Inl ValueError)
      else Inl ValueError)"

text \<open>
  The loop that waits for the server's transfer slots: sleep five seconds, fetch the
  entity again, leave when it lists more than one \<open>File\<close>. There is nothing else that
  ends it, so it is a partial function.
\<close>

partial_function (option) poll_loop :: "client \<Rightarrow> xml \<Rightarrow> world \<Rightarrow> xml result option" where
  "poll_loop cl catalog_item w =
     (case child catalog_item ''Entity'' of
        Inl e \<Rightarrow> Some (Inl e, w\<lparr>clock := clock w + 5\<rparr>)
      | Inr ent \<Rightarrow>
          (case get_resource cl (get ent ''href'') (w\<lparr>clock := clock w + 5\<rparr>) of
             (Inl e, w1) \<Rightarrow> Some (Inl e, w1)
           | (Inr entity, w1) \<Rightarrow>
               (case child entity ''Files'' of
                  Inl e \<Rightarrow> Some (Inl e, w1)
                | Inr fs \<Rightarrow>
                    (case child fs ''File'' of
                       Inl e \<Rightarrow> Some (Inl e, w1)
                     | Inr f \<Rightarrow>
                         if 1 < length (named fs ''File'') then Some (Inr entity, w1)
                         else poll_loop cl catalog_item w1))))"

declare poll_loop.simps [code]

text \<open>
  The inner loop over the entity's \<open>File\<close> elements for one member of the descriptor, and
  the outer loop over the members. \<open>None\<close> is an upload that never returns.
\<close>

fun upload_slots ::
  "Org \<Rightarrow> string \<Rightarrow> int \<Rightarrow> bool \<Rightarrow> source_file \<Rightarrow> xml list \<Rightarrow> nat \<Rightarrow> world \<Rightarrow> nat result option"
where
  "upload_slots self tempdir chunk_size callback source_file [] total_bytes w =
     Some (Inr total_bytes, w)"
| "upload_slots self tempdir chunk_size callback source_file (target_file # targets) total_bytes w =
     (if sf_href source_file = get target_file ''name'' then
        (case path_join tempdir (sf_href source_file) of
           Inl e \<Rightarrow> Some (Inl e, w)
         | Inr file_path \<Rightarrow>
             (case child target_file ''Link'' of
                Inl e \<Rightarrow> Some (Inl e, w)
              | Inr lnk \<Rightarrow>
                  (case upload_file self file_path (get lnk ''href'') chunk_size callback w of
                     None \<Rightarrow> None
                   | Some (Inl e, w1) \<Rightarrow> Some (Inl e, w1)
                   | Some (Inr n, w1) \<Rightarrow>
                       upload_slots self tempdir chunk_size callback source_file targets
                         (total_bytes + n) w1)))
      else upload_slots self tempdir chunk_size callback source_file targets total_bytes w)"

fun upload_members ::
  "Org \<Rightarrow> string \<Rightarrow> int \<Rightarrow> bool \<Rightarrow> xml \<Rightarrow> source_file list \<Rightarrow> nat \<Rightarrow> world \<Rightarrow> nat result option"
where
  "upload_members self tempdir chunk_size callback entity [] total_bytes w =
     Some (Inr total_bytes, w)"
| "upload_members self tempdir chunk_size callback entity (source_file # members) total_bytes w =
     (case child entity ''Files'' of
        Inl e \<Rightarrow> Some (Inl e, w)
      | Inr fs \<Rightarrow>
          (case each fs ''File'' of
             Inl e \<Rightarrow> Some (Inl e, w)
           | Inr targets \<Rightarrow>
               (case upload_slots self tempdir chunk_size callback source_file targets
                       total_bytes w of
                  None \<Rightarrow> None
                | Some (Inl e, w1) \<Rightarrow> Some (Inl e, w1)
                | Some (Inr total1, w1) \<Rightarrow>
                    upload_members self tempdir chunk_size callback entity members total1 w1)))"

text \<open>
  Lines 305 to 330: announce the template, fetch the entity, put the descriptor, wait for
  the slots, upload the members. \<open>total_bytes\<close> holds the descriptor's size on entry.
\<close>

definition upload_template ::
  "Org \<Rightarrow> xml \<Rightarrow> string \<Rightarrow> string \<Rightarrow> int \<Rightarrow> bool \<Rightarrow> string \<Rightarrow> xml \<Rightarrow>
   source_file list \<Rightarrow> nat \<Rightarrow> world \<Rightarrow> nat result option"
where
  "upload_template self catalog item_name description chunk_size callback tempdir ovf members
     total_bytes w =
     (case upload_params item_name description of
        Inl e \<Rightarrow> Some (Inl e, w)
      | Inr params \<Rightarrow>
     (case str_add (get catalog ''href'') ''/action/upload'' of
        Inl e \<Rightarrow> Some (Inl e, w)
      | Inr uri \<Rightarrow>
     (case post_resource (client self) uri (Some params)
             (PyStr (entity_type_value (client self) UPLOAD_VAPP_TEMPLATE_PARAMS)) w of
        (Inl e, w1) \<Rightarrow> Some (Inl e, w1)
      | (Inr catalog_item, w1) \<Rightarrow>
     (case child catalog_item ''Entity'' of
        Inl e \<Rightarrow> Some (Inl e, w1)
      | Inr ent \<Rightarrow>
     (case get_resource (client self) (get ent ''href'') w1 of
        (Inl e, w2) \<Rightarrow> Some (Inl e, w2)
      | (Inr entity, w2) \<Rightarrow>
     (case child entity ''Files'' of
        Inl e \<Rightarrow> Some (Inl e, w2)
      | Inr fs \<Rightarrow>
     (case child fs ''File'' of
        Inl e \<Rightarrow> Some (Inl e, w2)
      | Inr f \<Rightarrow>
     (case child f ''Link'' of
        Inl e \<Rightarrow> Some (Inl e, w2)
      | Inr lnk \<Rightarrow>
     (case put_resource (client self) (get lnk ''href'') ovf ''text/xml'' w2 of
        (Inl e, w3) \<Rightarrow> Some (Inl e, w3)
      | (Inr u, w3) \<Rightarrow>
     (case poll_loop (client self) catalog_item w3 of
        None \<Rightarrow> None
      | Some (Inl e, w4) \<Rightarrow> Some (Inl e, w4)
      | Some (Inr entity1, w4) \<Rightarrow>
          upload_members self tempdir chunk_size callback entity1 members total_bytes
            w4))))))))))"

text \<open>
  Lines 291 to 302, then the above: the descriptor's size, its parse, and the dictionaries
  of its \<open>References.File\<close> elements.
\<close>

definition upload_descriptor ::
  "Org \<Rightarrow> library \<Rightarrow> xml \<Rightarrow> string \<Rightarrow> string \<Rightarrow> int \<Rightarrow> bool \<Rightarrow> string \<Rightarrow> string \<Rightarrow>
   world \<Rightarrow> nat result option"
where
  "upload_descriptor self lib catalog item_name description chunk_size callback tempdir
     ovf_file w =
     (case os_stat w ovf_file of
        Inl e \<Rightarrow> Some (Inl e, w)
      | Inr stat_info \<Rightarrow>
     (case read_file w ovf_file of
        Inl e \<Rightarrow> Some (Inl e, w)
      | Inr bs \<Rightarrow>
     (case parse lib bs of
        Inl e \<Rightarrow> Some (Inl e, w)
      | Inr ovf \<Rightarrow>
     (case child ovf ''References'' of
        Inl e \<Rightarrow> Some (Inl e, w)
      | Inr refs \<Rightarrow>
     (case each refs ''File'' of
        Inl e \<Rightarrow> Some (Inl e, w)
      | Inr fs \<Rightarrow>
          upload_template self catalog item_name description chunk_size callback tempdir ovf
            (map source_file_of fs) (0 + st_size stat_info) w)))))"

text \<open>
  The body of the \<open>try\<close>: extract, look for the descriptor, upload when there is one,
  remove the directory.
\<close>

definition upload_ovf_try ::
  "Org \<Rightarrow> library \<Rightarrow> xml \<Rightarrow> string \<Rightarrow> string \<Rightarrow> string \<Rightarrow> int \<Rightarrow> bool \<Rightarrow> string \<Rightarrow>
   world \<Rightarrow> nat result option"
where
  "upload_ovf_try self lib catalog file_name item_name description chunk_size callback
     tempdir w =
     (case tarfile_open lib file_name w of
        Inl e \<Rightarrow> Some (Inl e, w)
      | Inr ova \<Rightarrow>
     (case listdir (extractall ova tempdir w) tempdir of
        Inl e \<Rightarrow> Some (Inl e, extractall ova tempdir w)
      | Inr names \<Rightarrow>
     (case (case find_ovf tempdir names of
              Some ovf_file \<Rightarrow>
                upload_descriptor self lib catalog item_name description chunk_size callback
                  tempdir ovf_file (extractall ova tempdir w)
            | None \<Rightarrow> Some (Inr 0, extractall ova tempdir w)) of
        None \<Rightarrow> None
      | Some (Inl e, w1) \<Rightarrow> Some (Inl e, w1)
      | Some (Inr total_bytes, w1) \<Rightarrow>
          (case rmtree tempdir w1 of
             (Inl e, w2) \<Rightarrow> Some (Inl e, w2)
           | (Inr u, w2) \<Rightarrow> Some (Inr total_bytes, w2)))))"

text \<open>
  The handler \<open>except Exception as e\<close>: print the traceback, remove the directory, raise
  the exception again. An exception raised by the handler's own \<open>rmtree\<close> takes its
  place.
\<close>

definition upload_ovf_except :: "string \<Rightarrow> error \<Rightarrow> world \<Rightarrow> nat result" where
  "upload_ovf_except tempdir e w =
     (case rmtree tempdir (w\<lparr>printed := printed w @ [e]\<rparr>) of
        (Inl e1, w1) \<Rightarrow> (Inl e1, w1)
      | (Inr u, w1) \<Rightarrow> (Inl e, w1))"

text \<open>
  The method. The directory is made before the \<open>try\<close>. The handler takes the exceptions
  derived from \<open>Exception\<close>; there is no \<open>finally\<close> clause, so any other exception
  leaves the method as it is, with the directory still there.
\<close>

definition upload_ovf ::
  "Org \<Rightarrow> library \<Rightarrow> string \<Rightarrow> string \<Rightarrow> string option \<Rightarrow> string \<Rightarrow> int \<Rightarrow> bool \<Rightarrow>
   world \<Rightarrow> nat result option"
where
  "upload_ovf self lib catalog_name file_name item_name description chunk_size callback w =
     (case get_catalog self catalog_name w of
        (Inl e, w1) \<Rightarrow> Some (Inl e, w1)
      | (Inr catalog, w1) \<Rightarrow>
          (case mkdtemp w1 of
             (Inl e, w2) \<Rightarrow> Some (Inl e, w2)
           | (Inr tempdir, w2) \<Rightarrow>
               (case upload_ovf_try self lib catalog file_name
                       (case item_name of None \<Rightarrow> basename file_name | Some n \<Rightarrow> n)
                       description chunk_size callback tempdir w2 of
                  None \<Rightarrow> None
                | Some (Inl e, w3) \<Rightarrow>
                    if is_Exception e then Some (upload_ovf_except tempdir e w3)
                    else Some (Inl e, w3)
                | Some (Inr total_bytes, w3) \<Rightarrow> Some (Inr total_bytes, w3))))"

subsection \<open>\<open>download_catalog_item\<close>\<close>

text \<open>\<open>s.replace(old, new)\<close> for a non-empty \<open>old\<close>: every occurrence, from the left.\<close>

function replace :: "string \<Rightarrow> string \<Rightarrow> string \<Rightarrow> string" where
  "replace old new s =
     (if old = [] \<or> s = [] then s
      else if take (length old) s = old then new @ replace old new (drop (length old) s)
      else hd s # replace old new (tl s))"
  by pat_completeness auto
termination
  by (relation "measure (\<lambda>(old, new, s). length s)") auto

text \<open>\<open>a + b\<close> for a string \<open>a\<close> and a value \<open>b\<close>, and \<open>'%s' % v\<close>.\<close>

definition add_str :: "string \<Rightarrow> pyval \<Rightarrow> error + string" where
  "add_str a b = (case b of PyStr s \<Rightarrow> Inr (a @ s) | _ \<Rightarrow> Inl TypeError)"

definition py_str :: "pyval \<Rightarrow> string" where
  "py_str v = (case v of PyNone \<Rightarrow> ''None'' | PyStr s \<Rightarrow> s | PyInt i \<Rightarrow> str_int i)"

text \<open>
  The loop over the descriptor's \<open>References.File\<close> elements: download each into the
  directory, compare the value the client returns with the \<open>size\<close> attribute, collect
  the dictionaries. \<open>acc\<close> is the list \<open>files\<close> so far.
\<close>

fun download_members ::
  "Org \<Rightarrow> string \<Rightarrow> string \<Rightarrow> int \<Rightarrow> bool \<Rightarrow> xml list \<Rightarrow> source_file list \<Rightarrow> world \<Rightarrow>
   source_file list result"
where
  "download_members self tempdir transfer_uri chunk_size callback [] acc w = (Inr acc, w)"
| "download_members self tempdir transfer_uri chunk_size callback (f # fs) acc w =
     (case path_join tempdir (sf_href (source_file_of f)) of
        Inl e \<Rightarrow> (Inl e, w)
      | Inr target_file \<Rightarrow>
     (case add_str transfer_uri (sf_href (source_file_of f)) of
        Inl e \<Rightarrow> (Inl e, w)
      | Inr uri \<Rightarrow>
     (case download_from_uri (client self) (PyStr uri) target_file chunk_size
             (sf_size (source_file_of f)) callback w of
        (Inl e, w1) \<Rightarrow> (Inl e, w1)
      | (Inr num_bytes, w1) \<Rightarrow>
          if num_bytes \<noteq> sf_size (source_file_of f)
          then (Inl (Exception (''download incomplete for file '' @
                   py_str (sf_href (source_file_of f)))), w1)
          else download_members self tempdir transfer_uri chunk_size callback fs
                 (acc @ [source_file_of f]) w1)))"

text \<open>\<open>tar.add(name)\<close>: the member read from the file of that name.\<close>

definition tar_add :: "world \<Rightarrow> pyval \<Rightarrow> error + string \<times> bytes" where
  "tar_add w name =
     (case name of
        PyStr n \<Rightarrow> (case read_file w n of Inl e \<Rightarrow> Inl e | Inr bs \<Rightarrow> Inr (n, bs))
      | _ \<Rightarrow> Inl TypeError)"

fun tar_add_all :: "world \<Rightarrow> source_file list \<Rightarrow> error + (string \<times> bytes) list" where
  "tar_add_all w [] = Inr []"
| "tar_add_all w (f # fs) =
     (case tar_add w (sf_href f) of
        Inl e \<Rightarrow> Inl e
      | Inr m \<Rightarrow> (case tar_add_all w fs of Inl e \<Rightarrow> Inl e | Inr ms \<Rightarrow> Inr (m # ms)))"

text \<open>
  The \<open>with tarfile.open(file_name, 'w') as tar\<close> block. Opening creates the output file
  where \<open>file_name\<close> points at that moment; leaving the block normally completes the
  archive there. What reaches the file before an exception is not modelled: it stays empty.
\<close>

definition package :: "library \<Rightarrow> string \<Rightarrow> string \<Rightarrow> source_file list \<Rightarrow> world \<Rightarrow> unit result" where
  "package lib file_name tempdir members w =
     (case chdir tempdir (write_file w file_name []) of
        (Inl e, w1) \<Rightarrow> (Inl e, w1)
      | (Inr u, w1) \<Rightarrow>
          (case tar_add w1 (PyStr ''descriptor.ovf'') of
             Inl e \<Rightarrow> (Inl e, w1)
           | Inr m \<Rightarrow>
               (case tar_add_all w1 members of
                  Inl e \<Rightarrow> (Inl e, w1)
                | Inr ms \<Rightarrow>
                    (Inr (), write_abs w1 (abspath w file_name) (tar_archive lib (m # ms))))))"

text \<open>
  The body of the \<open>try\<close> of the template branch. The first component of the result is
  the variable \<open>tempdir\<close> as the \<open>finally\<close> clause finds it.
\<close>

definition download_template_try ::
  "Org \<Rightarrow> library \<Rightarrow> xml \<Rightarrow> string \<Rightarrow> string \<Rightarrow> int \<Rightarrow> bool \<Rightarrow> world \<Rightarrow>
   string option \<times> unit result"
where
  "download_template_try self lib ovf_descriptor transfer_uri file_name chunk_size callback w =
     (case mkdtemp w of
        (Inl e, w1) \<Rightarrow> (None, Inl e, w1)
      | (Inr tempdir, w1) \<Rightarrow>
          (Some tempdir,
           (case child ovf_descriptor ''References'' of
              Inl e \<Rightarrow>
                (Inl e, write_file w1 (join_str tempdir ''descriptor.ovf'')
                          (tostring lib ovf_descriptor))
            | Inr refs \<Rightarrow>
           (case each refs ''File'' of
              Inl e \<Rightarrow>
                (Inl e, write_file w1 (join_str tempdir ''descriptor.ovf'')
                          (tostring lib ovf_descriptor))
            | Inr fs \<Rightarrow>
           (case download_members self tempdir transfer_uri chunk_size callback fs []
                   (write_file w1 (join_str tempdir ''descriptor.ovf'')
                      (tostring lib ovf_descriptor)) of
              (Inl e, w2) \<Rightarrow> (Inl e, w2)
            | (Inr members, w2) \<Rightarrow> package lib file_name tempdir members w2)))))"

text \<open>
  The \<open>finally\<close> clause: with a directory made, go back to the saved working directory
  and take the size of the output file. The line that would remove the directory is a
  comment in the source.
\<close>

definition download_finally :: "string option \<Rightarrow> string \<Rightarrow> string \<Rightarrow> pyval \<Rightarrow> world \<Rightarrow> pyval result" where
  "download_finally tempdir cwd0 file_name bytes_written w =
     (case tempdir of
        None \<Rightarrow> (Inr bytes_written, w)
      | Some d \<Rightarrow>
          (case chdir cwd0 w of
             (Inl e, w1) \<Rightarrow> (Inl e, w1)
           | (Inr u, w1) \<Rightarrow>
               (case os_stat w1 file_name of
                  Inl e \<Rightarrow> (Inl e, w1)
                | Inr stat_info \<Rightarrow> (Inr (PyInt (int (st_size stat_info))), w1))))"

text \<open>
  \<open>try\<close> and \<open>finally\<close> together: an exception of the \<open>finally\<close> clause replaces the
  one of the body; otherwise the body's exception goes on, or the function returns
  \<open>bytes_written\<close>.
\<close>

definition download_template ::
  "Org \<Rightarrow> library \<Rightarrow> xml \<Rightarrow> string \<Rightarrow> int \<Rightarrow> bool \<Rightarrow> world \<Rightarrow> pyval result"
where
  "download_template self lib item file_name chunk_size callback w =
     (case get_linked_resource (client self) item DOWNLOAD_DEFAULT
             (entity_type_value (client self) TEXT_XML) w of
        (Inl e, w1) \<Rightarrow> (Inl e, w1)
      | (Inr ovf_descriptor, w1) \<Rightarrow>
     (case find_link (client self) item DOWNLOAD_DEFAULT
             (entity_type_value (client self) TEXT_XML) of
        Inl e \<Rightarrow> (Inl e, w1)
      | Inr l \<Rightarrow>
     (case link_href l of
        PyStr transfer_uri \<Rightarrow>
          (case download_template_try self lib ovf_descriptor
                  (replace ''/descriptor.ovf'' ''/'' transfer_uri) file_name chunk_size
                  callback w1 of
             (tempdir, r, w2) \<Rightarrow>
               (case download_finally tempdir (cwd w1) file_name (PyInt 0) w2 of
                  (Inl e, w3) \<Rightarrow> (Inl e, w3)
                | (Inr bytes_written, w3) \<Rightarrow>
                    (case r of Inl e \<Rightarrow> (Inl e, w3) | Inr u \<Rightarrow> (Inr bytes_written, w3))))
      | _ \<Rightarrow> (Inl (AttributeError ''replace''), w1))))"

definition download_media ::
  "Org \<Rightarrow> xml \<Rightarrow> string \<Rightarrow> int \<Rightarrow> bool \<Rightarrow> world \<Rightarrow> pyval result"
where
  "download_media self item file_name chunk_size callback w =
     (case child item ''Files'' of
        Inl e \<Rightarrow> (Inl e, w)
      | Inr fs \<Rightarrow>
     (case child fs ''File'' of
        Inl e \<Rightarrow> (Inl e, w)
      | Inr f \<Rightarrow>
     (case child f ''Link'' of
        Inl e \<Rightarrow> (Inl e, w)
      | Inr lnk \<Rightarrow>
          download_from_uri (client self) (get lnk ''href'') file_name chunk_size
            (get f ''size'') callback w)))"

text \<open>
  The method itself: find the item, enable the download and wait for the server's task,
  fetch the entity, then branch on the type read from the catalog item. The parameter
  \<open>task_callback\<close> only travels on to the task monitor and is left out.
\<close>

definition download_catalog_item ::
  "Org \<Rightarrow> library \<Rightarrow> string \<Rightarrow> string \<Rightarrow> string \<Rightarrow> int \<Rightarrow> bool \<Rightarrow> world \<Rightarrow> pyval result"
where
  "download_catalog_item self lib catalog_name item_name file_name chunk_size callback w =
     (case get_catalog_item self catalog_name item_name w of
        (Inl e, w1) \<Rightarrow> (Inl e, w1)
      | (Inr item, w1) \<Rightarrow>
     (case child item ''Entity'' of
        Inl e \<Rightarrow> (Inl e, w1)
      | Inr ent \<Rightarrow>
     (case str_add (get ent ''href'') ''/action/enableDownload'' of
        Inl e \<Rightarrow> (Inl e, w1)
      | Inr enable_href \<Rightarrow>
     (case post_resource (client self) enable_href None PyNone w1 of
        (Inl e, w2) \<Rightarrow> (Inl e, w2)
      | (Inr task, w2) \<Rightarrow>
     (case wait_for_success (client self) task w2 of
        (Inl e, w3) \<Rightarrow> (Inl e, w3)
      | (Inr u, w3) \<Rightarrow>
     (case get_resource (client self) (get ent ''href'') w3 of
        (Inl e, w4) \<Rightarrow> (Inl e, w4)
      | (Inr item1, w4) \<Rightarrow>
          if get ent ''type'' = PyStr (entity_type_value (client self) MEDIA)
          then download_media self item1 file_name chunk_size callback w4
          else if get ent ''type'' = PyStr (entity_type_value (client self) VAPP_TEMPLATE)
          then download_template self lib item1 file_name chunk_size callback w4
          else (Inr (PyInt 0), w4)))))))"

subsection \<open>Conditions on the collaborator and on worlds\<close>

text \<open>A client that accepts every fragment: \<open>upload_fragment\<close> never raises.\<close>

definition accepts_all :: "client \<Rightarrow> bool" where
  "accepts_all cl = (\<forall>l h b r. upload_fragment_reply cl l h b r = None)"

text \<open>Two worlds with the same file system and output.\<close>

definition same_fs :: "world \<Rightarrow> world \<Rightarrow> bool" where
  "same_fs w w' =
     (files w' = files w \<and> dirs w' = dirs w \<and> cwd w' = cwd w \<and> tmp_names w' = tmp_names w
      \<and> printed w' = printed w)"

text \<open>
  A reply to the poll of \<open>upload_ovf\<close> that keeps the loop going: an entity that lists
  exactly one \<open>File\<close>. \<open>poll_reply cl href w k\<close> is the reply to poll number \<open>k\<close>
  (from 0) of a loop entered in world \<open>w\<close>, the earlier polls having kept it going.
\<close>

definition waiting :: "error + xml \<Rightarrow> bool" where
  "waiting r =
     (case r of
        Inl e \<Rightarrow> False
      | Inr entity \<Rightarrow>
          (case child entity ''Files'' of
             Inl e \<Rightarrow> False
           | Inr fs \<Rightarrow> length (named fs ''File'') = 1))"

definition poll_reply :: "client \<Rightarrow> pyval \<Rightarrow> world \<Rightarrow> nat \<Rightarrow> error + xml" where
  "poll_reply cl href w k = get_resource_reply cl (sent w @ replicate k (Get href)) href"

text \<open>
  The call of \<open>download_catalog_item\<close> takes the branch for appliance templates: the
  item is found, and the type of its entity is the template type and not the media type.
\<close>

definition template_branch :: "Org \<Rightarrow> string \<Rightarrow> string \<Rightarrow> world \<Rightarrow> bool" where
  "template_branch self catalog_name item_name w =
     (case get_catalog_item self catalog_name item_name w of
        (Inl e, w1) \<Rightarrow> False
      | (Inr item, w1) \<Rightarrow>
          (case child item ''Entity'' of
             Inl e \<Rightarrow> False
           | Inr ent \<Rightarrow>
               get ent ''type'' \<noteq> PyStr (entity_type_value (client self) MEDIA)
               \<and> get ent ''type'' = PyStr (entity_type_value (client self) VAPP_TEMPLATE)))"

text \<open>An absolute path: it starts with a slash.\<close>

definition absolute :: "string \<Rightarrow> bool" where
  "absolute p = (p \<noteq> [] \<and> hd p = CHR ''/'')"

subsection \<open>Example inputs\<close>

text \<open>
  A working directory \<open>/w\<close> with a file \<open>a.bin\<close> of three bytes, a file
  \<open>short.bin\<close> whose reported size is one byte while reading it yields nothing, an
  archive \<open>a.ova\<close> and an older file \<open>old.ova\<close>.
\<close>

definition ex_world :: world where
  "ex_world =
     \<lparr>files = [(''/w/a.bin'', regular ''abc''), (''/w/short.bin'', \<lparr>st_size = 1, data = []\<rparr>),
               (''/w/a.ova'', regular ''tar''), (''/w/old.ova'', regular ''old'')],
      dirs = [''/w''], cwd = ''/w'', tmp_names = [''tmp1''],
      clock = 0, printed = [], progress = [], sent = []\<rparr>"

text \<open>The documents of a small server: a catalog \<open>c\<close> with one item \<open>it\<close>.\<close>

definition ex_slot :: "string \<Rightarrow> string \<Rightarrow> xml" where
  "ex_slot n h = Elem ''File'' [(''name'', n)] [] [Elem ''Link'' [(''href'', h)] [] []]"

definition ex_entity_one :: xml where
  "ex_entity_one =
     Elem ''VAppTemplate'' [] [] [Elem ''Files'' [] [] [ex_slot ''descriptor.ovf'' ''u0'']]"

definition ex_entity_two :: xml where
  "ex_entity_two =
     Elem ''VAppTemplate'' [] []
       [Elem ''Files'' [] [] [ex_slot ''descriptor.ovf'' ''u0'', ex_slot ''disk.vmdk'' ''u1'']]"

definition ex_descriptor :: xml where
  "ex_descriptor =
     Elem ''Envelope'' [] []
       [Elem ''References'' [] []
          [Elem ''File''
             [(ns @ ''href'', ''disk.vmdk''), (ns @ ''id'', ''file1''), (ns @ ''size'', ''3'')]
             [] []]]"

definition ex_descriptor_empty :: xml where
  "ex_descriptor_empty = Elem ''Envelope'' [] [] [Elem ''References'' [] [] []]"

definition ex_catalog :: xml where
  "ex_catalog =
     Elem ''Catalog'' [(''href'', ''cat'')] []
       [Elem ''CatalogItems'' [] []
          [Elem ''CatalogItem'' [(''name'', ''it''), (''href'', ''item'')] [] []]]"

definition ex_item :: xml where
  "ex_item =
     Elem ''CatalogItem'' [] [] [Elem ''Entity'' [(''href'', ''ent''), (''type'', ''T'')] [] []]"

definition is_put :: "request \<Rightarrow> bool" where
  "is_put r = (case r of Put u x m \<Rightarrow> True | _ \<Rightarrow> False)"

text \<open>
  The example client: it accepts everything; the entity lists the second transfer slot
  once the descriptor has been put; a download stores three bytes and returns the
  integer 3.
\<close>

definition ex_client :: client where
  "ex_client =
     \<lparr>get_resource_reply =
        (\<lambda>l u. if u = PyStr ''org'' then Inr (Elem ''Org'' [] [] [])
               else if u = PyStr ''cat'' then Inr ex_catalog
               else if u = PyStr ''item'' then Inr ex_item
               else if list_ex is_put l then Inr ex_entity_two
               else Inr ex_entity_one),
      post_resource_reply = (\<lambda>l u x m. Inr ex_item),
      put_resource_reply = (\<lambda>l u x m. None),
      upload_fragment_reply = (\<lambda>l h b r. None),
      download_from_uri_reply = (\<lambda>l u s. Inr (''abc'', PyInt 3)),
      wait_for_success_reply = (\<lambda>l t. None),
      get_linked_resource_reply = (\<lambda>l x r m. Inr ex_descriptor),
      get_links = (\<lambda>x r m. [\<lparr>link_name = PyStr ''c'', link_href = PyStr ''cat''\<rparr>]),
      find_link =
        (\<lambda>x r m. Inr \<lparr>link_name = PyNone, link_href = PyStr ''http://h/t/descriptor.ovf''\<rparr>),
      entity_type_value =
        (\<lambda>t. case t of MEDIA \<Rightarrow> ''M'' | VAPP_TEMPLATE \<Rightarrow> ''T'' | _ \<Rightarrow> ''X'')\<rparr>"

text \<open>A server that never lists a second transfer slot.\<close>

definition ex_client_stuck :: client where
  "ex_client_stuck =
     ex_client\<lparr>get_resource_reply :=
        (\<lambda>l u. if u = PyStr ''ent'' then Inr ex_entity_one
               else get_resource_reply ex_client l u)\<rparr>"


text \<open>A client whose download returns the very value it was passed as \<open>size\<close>.\<close>

definition ex_client_echo :: client where
  "ex_client_echo = ex_client\<lparr>download_from_uri_reply := (\<lambda>l u s. Inr (''abc'', s))\<rparr>"

definition ex_org :: Org where
  "ex_org = \<lparr>client = ex_client, endpoint = PyStr ''org''\<rparr>"

text \<open>
  The example libraries: an archive with a descriptor and one disk; one without a
  descriptor; one whose descriptor lists no file.
\<close>

definition ex_library :: library where
  "ex_library =
     \<lparr>tar_members = (\<lambda>bs. Inr [(''descriptor.ovf'', ''<xml/>''), (''disk.vmdk'', ''abc'')]),
      tar_archive = (\<lambda>ms. concat (map snd ms) @ ''00''),
      parse = (\<lambda>bs. Inr ex_descriptor),
      tostring = (\<lambda>x. ''<xml/>'')\<rparr>"

definition ex_library_no_ovf :: library where
  "ex_library_no_ovf = ex_library\<lparr>tar_members := (\<lambda>bs. Inr [(''disk.vmdk'', ''abc'')])\<rparr>"

definition ex_library_empty :: library where
  "ex_library_empty =
     ex_library\<lparr>tar_members := (\<lambda>bs. Inr [(''descriptor.ovf'', ''<xml/>'')]),
                parse := (\<lambda>bs. Inr ex_descriptor_empty)\<rparr>"


text \<open>The world after the example download with the client that returns the declared size.\<close>

definition ex_downloaded :: world where
  "ex_downloaded =
     ex_world\<lparr>files :=
         [(''/w/out.ova'', regular ''<xml/>abc00''), (''/w/./tmp1/disk.vmdk'', regular ''abc''),
          (''/w/./tmp1/descriptor.ovf'', regular ''<xml/>'')] @ files ex_world,
       dirs := [''/w/./tmp1'', ''/w''], tmp_names := [],
       sent :=
         [Get (PyStr ''org''), Get (PyStr ''cat''), Get (PyStr ''item''),
          Post (PyStr ''ent/action/enableDownload'') None PyNone, WaitTask ex_item,
          Get (PyStr ''ent''), LinkedResource ex_entity_one DOWNLOAD_DEFAULT ''X'',
          Download (PyStr ''http://h/t/disk.vmdk'') ''./tmp1/disk.vmdk'' 2 (PyStr ''3'')]\<rparr>"

section \<open>Properties of \<open>upload_file\<close>\<close>

lemma upload_fragment_accepted:
  "accepts_all cl \<Longrightarrow>
   upload_fragment cl href bs rng w = (Inr (), w\<lparr>sent := sent w @ [Fragment href bs rng]\<rparr>)"
  by (simp add: upload_fragment_def accepts_all_def)


lemma upload_loop_never_returns:
  assumes "upload_loop cl href chunk_size callback file_size rest transferred w = Some y"
  shows "accepts_all cl \<Longrightarrow> transferred < file_size \<Longrightarrow>
   chunk_size \<le> 0 \<or> transferred + length rest < file_size \<Longrightarrow> False"
proof (rule upload_loop.raw_induct
    [where P = "\<lambda>cl href chunk_size callback file_size rest transferred w y.
       accepts_all cl \<longrightarrow> transferred < file_size \<longrightarrow>
       (chunk_size \<le> 0 \<or> transferred + length rest < file_size) \<longrightarrow> False", rule_format, OF _ assms])
  fix f cl href chunk_size callback file_size rest transferred w y
  assume IH: "\<And>cl href chunk_size callback file_size rest transferred w y.
        f cl href chunk_size callback file_size rest transferred w = Some y \<Longrightarrow>
        accepts_all cl \<Longrightarrow> transferred < file_size \<Longrightarrow>
        (chunk_size \<le> 0 \<or> transferred + length rest < file_size) \<Longrightarrow> False"
    and body: "(if transferred < file_size
      then if int (length (f_read chunk_size rest)) \<le> chunk_size
           then case upload_fragment cl href (f_read chunk_size rest)
                      (range_str transferred (f_read chunk_size rest) file_size) w of
                (Inl e, w1) \<Rightarrow> Some (Inl e, w1)
                | (Inr u, w1) \<Rightarrow>
                    f cl href chunk_size callback file_size
                     (drop (length (f_read chunk_size rest)) rest)
                     (transferred + length (f_read chunk_size rest))
                     (call_back callback (transferred + length (f_read chunk_size rest)) file_size w1)
           else f cl href chunk_size callback file_size
                 (drop (length (f_read chunk_size rest)) rest) transferred w
      else Some (Inr transferred, w)) = Some y"
    and acc: "accepts_all cl" and lt: "transferred < file_size"
    and stuck: "chunk_size \<le> 0 \<or> transferred + length rest < file_size"
  show False
  proof (cases "chunk_size < 0")
    case True
    with body lt have "f cl href chunk_size callback file_size [] transferred w = Some y"
      by (simp add: f_read_def)
    from IH [OF this acc lt] True show False by simp
  next
    case False
    let ?b = "f_read chunk_size rest"
    from False have len: "int (length ?b) \<le> chunk_size"
      by (simp add: f_read_def)
    with body lt acc have call: "f cl href chunk_size callback file_size (drop (length ?b) rest)
        (transferred + length ?b)
        (call_back callback (transferred + length ?b) file_size
           (w\<lparr>sent := sent w @ [Fragment href ?b (range_str transferred ?b file_size)]\<rparr>)) = Some y"
      by (simp add: upload_fragment_accepted)
    from stuck False have "transferred + length ?b < file_size"
      and "chunk_size \<le> 0 \<or> transferred + length ?b + length (drop (length ?b) rest) < file_size"
      using lt by (auto simp: f_read_def)
    with IH [OF call acc] show False by blast
  qed
qed



lemma ceil_Suc:
  fixes n c :: nat
  assumes "0 < c" "0 < n"
  shows "(n + c - 1) div c = Suc ((n - 1) div c)"
proof -
  from assms obtain m where n: "n = Suc m" by (cases n) auto
  have "(m + c) div c = Suc (m div c)" using assms div_add_self2 [of c m] by simp
  with n show ?thesis by simp
qed

lemma ceil_step:
  fixes n c :: nat
  assumes "0 < c" "0 < n"
  shows "(n + c - 1) div c = Suc ((n - min c n + c - 1) div c)"
proof (cases "c \<le> n")
  case True
  then have "n - min c n + c - 1 = n - 1" using assms by (simp add: min_def)
  with ceil_Suc [OF assms] show ?thesis by simp
next
  case False
  then have "(n - 1) div c = 0" "(n - min c n + c - 1) div c = 0" using assms by (auto simp: min_def)
  with ceil_Suc [OF assms] show ?thesis by simp
qed

lemma ceil_zero:
  fixes n c :: nat
  assumes "0 < c" "(n + c - 1) div c = 0"
  shows "n = 0"
  using assms ceil_Suc [of c n] by (cases "n = 0") auto

lemma upload_loop_exact:
  assumes acc: "accepts_all cl" and pos: "0 < chunk_size"
  shows "file_size = transferred + length rest \<Longrightarrow>
    \<exists>w' ts. upload_loop cl href chunk_size callback file_size rest transferred w
               = Some (Inr file_size, w')
      \<and> progress w' = progress w @ (if callback then map (\<lambda>t. (int t, int file_size)) ts else [])
      \<and> sorted_wrt (<) ts \<and> (\<forall>t \<in> set ts. transferred < t)
      \<and> (ts \<noteq> [] \<longrightarrow> last ts = file_size)
      \<and> length ts = (length rest + nat chunk_size - 1) div nat chunk_size
      \<and> length (sent w') = length (sent w) + length ts
      \<and> same_fs w w'"
proof (induction "length rest" arbitrary: rest transferred w rule: less_induct)
  case less
  show ?case
  proof (cases "rest = []")
    case True
    with less.prems pos show ?thesis
      by (subst upload_loop.simps) (simp add: same_fs_def)
  next
    case False
    let ?b = "f_read chunk_size rest"
    let ?r = "drop (length ?b) rest"
    let ?t = "transferred + length ?b"
    let ?w = "call_back callback ?t file_size
               (w\<lparr>sent := sent w @ [Fragment href ?b (range_str transferred ?b file_size)]\<rparr>)"
    from False pos have b: "length ?b = min (nat chunk_size) (length rest)" "0 < length ?b"
      and fits: "int (length ?b) \<le> chunk_size"
      by (auto simp: f_read_def)
    then have shorter: "length ?r < length rest" and inv: "file_size = ?t + length ?r"
      using less.prems False by auto
    from less.hyps [OF shorter inv, of ?w] obtain w' ts where
      run: "upload_loop cl href chunk_size callback file_size ?r ?t ?w = Some (Inr file_size, w')"
      and prog: "progress w' = progress ?w @ (if callback then map (\<lambda>t. (int t, int file_size)) ts else [])"
      and sorted: "sorted_wrt (<) ts" and above: "\<forall>t \<in> set ts. ?t < t"
      and final: "ts \<noteq> [] \<longrightarrow> last ts = file_size"
      and count: "length ts = (length ?r + nat chunk_size - 1) div nat chunk_size"
      and sends: "length (sent w') = length (sent ?w) + length ts"
      and fs: "same_fs ?w w'"
      by blast
    have lt: "transferred < file_size" using less.prems False by simp
    have unfold: "upload_loop cl href chunk_size callback file_size rest transferred w
        = upload_loop cl href chunk_size callback file_size ?r ?t ?w"
      by (subst upload_loop.simps) (simp add: lt fits upload_fragment_accepted [OF acc])
    have none: "ts = [] \<Longrightarrow> ?t = file_size"
    proof -
      assume "ts = []"
      with count have "(length ?r + nat chunk_size - 1) div nat chunk_size = 0" by simp
      with pos have "length ?r = 0"
        using ceil_zero [of "nat chunk_size" "length ?r"] by simp
      with inv show ?thesis by simp
    qed
    have cnt: "Suc (length ts) = (length rest + nat chunk_size - 1) div nat chunk_size"
      using ceil_step [of "nat chunk_size" "length rest"] pos False count b by simp
    show ?thesis
    proof (intro exI [of _ w'] exI [of _ "?t # ts"] conjI)
      show "upload_loop cl href chunk_size callback file_size rest transferred w = Some (Inr file_size, w')"
        using unfold run by simp
      show "progress w' = progress w @
          (if callback then map (\<lambda>t. (int t, int file_size)) (?t # ts) else [])"
        using prog by (simp add: call_back_def)
      show "sorted_wrt (<) (?t # ts)" using sorted above by simp
      show "\<forall>t \<in> set (?t # ts). transferred < t" using above b by auto
      show "?t # ts \<noteq> [] \<longrightarrow> last (?t # ts) = file_size" using final none by auto
      show "length (?t # ts) = (length rest + nat chunk_size - 1) div nat chunk_size"
        using cnt by simp
      show "length (sent w') = length (sent w) + length (?t # ts)"
        using sends by (simp add: call_back_def)
      show "same_fs w w'" using fs by (simp add: same_fs_def call_back_def)
    qed
  qed
qed

lemma upload_loop_returns:
  assumes acc: "accepts_all cl" and pos: "0 < chunk_size"
  shows "file_size \<le> transferred + length rest \<Longrightarrow>
    \<exists>y. upload_loop cl href chunk_size callback file_size rest transferred w = Some y"
proof (induction "length rest" arbitrary: rest transferred w rule: less_induct)
  case less
  show ?case
  proof (cases "transferred < file_size")
    case False
    then show ?thesis by (subst upload_loop.simps) simp
  next
    case True
    let ?b = "f_read chunk_size rest"
    let ?r = "drop (length ?b) rest"
    let ?t = "transferred + length ?b"
    let ?w = "call_back callback ?t file_size
               (w\<lparr>sent := sent w @ [Fragment href ?b (range_str transferred ?b file_size)]\<rparr>)"
    from True less.prems have ne: "rest \<noteq> []" by auto
    with pos have b: "length ?b = min (nat chunk_size) (length rest)" "0 < length ?b"
      and fits: "int (length ?b) \<le> chunk_size"
      by (auto simp: f_read_def)
    then have shorter: "length ?r < length rest" and inv: "file_size \<le> ?t + length ?r"
      using less.prems ne by auto
    have "upload_loop cl href chunk_size callback file_size rest transferred w
        = upload_loop cl href chunk_size callback file_size ?r ?t ?w"
      by (subst upload_loop.simps) (simp add: True fits upload_fragment_accepted [OF acc])
    with less.hyps [OF shorter inv, of ?w] show ?thesis by simp
  qed
qed


text \<open>
  Claim C1 says that the range header of every fragment is
  \<open>bytes <offset>-<offset+len-1>/<S>\<close>. For the three bytes of \<open>a.bin\<close> sent in chunks of
  two, two fragments are submitted, as many as the claim says, but the second one, at
  offset 2 with one byte, carries \<open>bytes 2-0/3\<close> where the claim has \<open>bytes 2-2/3\<close>: the
  end of the range is \<open>len - 1\<close>, without the offset.
\<close>

theorem upload_file_second_range_header:
  "upload_file ex_org ''a.bin'' (PyStr ''u'') 2 False ex_world =
     Some (Inr 3, ex_world\<lparr>sent :=
       [Fragment (PyStr ''u'') ''ab'' ''bytes 0-1/3'', Fragment (PyStr ''u'') ''c'' ''bytes 2-0/3'']\<rparr>)"
  by (simp add: upload_file_def os_stat_def lookup_file_def abspath_def join_str_def regular_def
      ex_world_def ex_org_def ex_client_def upload_loop.simps f_read_def upload_fragment_def
      call_back_def range_str_def str_int_def digit_def)

text \<open>
  Claim C2: for a file whose bytes are as many as its size \<open>S\<close>, a chunk size above zero
  and a client that accepts the fragments, \<open>upload_file\<close> returns, and returns \<open>S\<close>; the
  callback, when given, is called once per fragment, \<open>\<lceil>S/C\<rceil>\<close> times, with second argument
  \<open>S\<close> and with strictly increasing first arguments, the last of which is \<open>S\<close>.
\<close>

theorem upload_file_transfers_whole_file:
  assumes "os_stat w file_name = Inr f" and "length (data f) = st_size f"
    and "0 < chunk_size" and "accepts_all (client self)"
  shows "\<exists>w' ts. upload_file self file_name href chunk_size callback w = Some (Inr (st_size f), w')
      \<and> progress w' = progress w @ (if callback then map (\<lambda>t. (int t, int (st_size f))) ts else [])
      \<and> sorted_wrt (<) ts \<and> (ts \<noteq> [] \<longrightarrow> last ts = st_size f)
      \<and> length ts = (st_size f + nat chunk_size - 1) div nat chunk_size
      \<and> length (sent w') = length (sent w) + length ts"
proof -
  from assms(2) have "st_size f = 0 + length (data f)" by simp
  from upload_loop_exact [OF assms(4) assms(3) this, of href callback w]
  obtain w' ts where
    run: "upload_loop (client self) href chunk_size callback (st_size f) (data f) 0 w
            = Some (Inr (st_size f), w')"
    and rest: "progress w' = progress w @ (if callback then map (\<lambda>t. (int t, int (st_size f))) ts else [])"
      "sorted_wrt (<) ts" "ts \<noteq> [] \<longrightarrow> last ts = st_size f"
      "length ts = (length (data f) + nat chunk_size - 1) div nat chunk_size"
      "length (sent w') = length (sent w) + length ts"
    by blast
  from run assms(1) have "upload_file self file_name href chunk_size callback w = Some (Inr (st_size f), w')"
    by (simp add: upload_file_def)
  with rest assms(2) show ?thesis by (intro exI [of _ w'] exI [of _ ts]) simp
qed

theorem upload_file_transfers_whole_file_witness:
  "\<exists>w' ts. upload_file ex_org ''a.bin'' (PyStr ''u'') 2 True ex_world = Some (Inr 3, w')
      \<and> progress w' = map (\<lambda>t. (int t, 3)) ts
      \<and> sorted_wrt (<) ts \<and> last ts = 3 \<and> length ts = 2 \<and> length (sent w') = 2"
proof -
  have stat: "os_stat ex_world ''a.bin'' = Inr (regular ''abc'')"
    by (simp add: os_stat_def lookup_file_def abspath_def join_str_def ex_world_def)
  have acc: "accepts_all (client ex_org)"
    by (simp add: accepts_all_def ex_org_def ex_client_def)
  have len: "length (data (regular ''abc'')) = st_size (regular ''abc'')"
    by (simp add: regular_def)
  from upload_file_transfers_whole_file [OF stat len _ acc, of 2 "PyStr ''u''" True]
  obtain w' ts where
    run: "upload_file ex_org ''a.bin'' (PyStr ''u'') 2 True ex_world = Some (Inr 3, w')"
    and prog: "progress w' = progress ex_world @ map (\<lambda>t. (int t, 3)) ts"
    and props: "sorted_wrt (<) ts" "ts \<noteq> [] \<longrightarrow> last ts = 3" "length ts = 2"
      "length (sent w') = length (sent ex_world) + length ts"
    by (auto simp: regular_def)
  from props(3) have "ts \<noteq> []" by auto
  with run prog props show ?thesis
    by (intro exI [of _ w'] exI [of _ ts]) (simp add: ex_world_def)
qed

text \<open>
  Claim C7, amended: with a client that accepts the fragments, \<open>upload_file\<close> returns
  exactly when the size is zero, or the chunk size is above zero and the file yields at
  least as many bytes as its size (so that every read before the target returns a byte).
  In every other case, in particular when a read returns nothing before the target is
  reached, the loop never ends; there is no transfer-truncated failure.
\<close>

theorem upload_file_returns_iff:
  assumes "os_stat w file_name = Inr f" and "accepts_all (client self)"
  shows "(\<exists>y. upload_file self file_name href chunk_size callback w = Some y)
     \<longleftrightarrow> (st_size f = 0 \<or> (0 < chunk_size \<and> st_size f \<le> length (data f)))"
proof
  assume "\<exists>y. upload_file self file_name href chunk_size callback w = Some y"
  then obtain y where y: "upload_loop (client self) href chunk_size callback (st_size f) (data f) 0 w = Some y"
    using assms(1) by (auto simp: upload_file_def)
  show "st_size f = 0 \<or> (0 < chunk_size \<and> st_size f \<le> length (data f))"
  proof (rule ccontr)
    assume "\<not> ?thesis"
    then have "0 < st_size f" "chunk_size \<le> 0 \<or> 0 + length (data f) < st_size f" by auto
    from upload_loop_never_returns [OF y assms(2) this] show False .
  qed
next
  assume r: "st_size f = 0 \<or> (0 < chunk_size \<and> st_size f \<le> length (data f))"
  show "\<exists>y. upload_file self file_name href chunk_size callback w = Some y"
  proof (cases "st_size f = 0")
    case True
    then show ?thesis using assms(1)
      by (simp add: upload_file_def) (subst upload_loop.simps, simp)
  next
    case False
    with r have "0 < chunk_size" "st_size f \<le> 0 + length (data f)" by auto
    from upload_loop_returns [OF assms(2) this, of href callback w]
    show ?thesis using assms(1) by (simp add: upload_file_def)
  qed
qed

theorem upload_file_returns_iff_witness:
  "(\<exists>y. upload_file ex_org ''a.bin'' (PyStr ''u'') 2 False ex_world = Some y)
   \<and> \<not> (\<exists>y. upload_file ex_org ''a.bin'' (PyStr ''u'') 0 False ex_world = Some y)"
proof -
  have stat: "os_stat ex_world ''a.bin'' = Inr (regular ''abc'')"
    by (simp add: os_stat_def lookup_file_def abspath_def join_str_def ex_world_def)
  have acc: "accepts_all (client ex_org)"
    by (simp add: accepts_all_def ex_org_def ex_client_def)
  show ?thesis
    using upload_file_returns_iff [OF stat acc, of "PyStr ''u''" 2 False]
      upload_file_returns_iff [OF stat acc, of "PyStr ''u''" 0 False]
    by (simp add: regular_def)
qed

text \<open>
  Claim C7 as stated asks for termination even when a read returns no byte before the size
  is reached. The file \<open>short.bin\<close> reports one byte and yields none: the call never
  returns.
\<close>

theorem upload_file_zero_byte_read_counterexample:
  "upload_file ex_org ''short.bin'' (PyStr ''u'') 1 False ex_world = None"
proof -
  have stat: "os_stat ex_world ''short.bin'' = Inr \<lparr>st_size = 1, data = []\<rparr>"
    by (simp add: os_stat_def lookup_file_def abspath_def join_str_def ex_world_def)
  have acc: "accepts_all (client ex_org)"
    by (simp add: accepts_all_def ex_org_def ex_client_def)
  have "upload_loop (client ex_org) (PyStr ''u'') 1 False 1 [] 0 ex_world = None"
  proof (cases "upload_loop (client ex_org) (PyStr ''u'') 1 False 1 [] 0 ex_world")
    case (Some y)
    from upload_loop_never_returns [OF Some acc] show ?thesis by simp
  qed simp
  with stat show ?thesis by (simp add: upload_file_def)
qed

section \<open>Properties of \<open>upload_ovf\<close>\<close>

subsection \<open>The poll loop\<close>

lemma poll_loop_step:
  assumes "child catalog_item ''Entity'' = Inr ent"
    and "waiting (poll_reply cl (get ent ''href'') w 0)"
  shows "poll_loop cl catalog_item w =
         poll_loop cl catalog_item
           (w\<lparr>clock := clock w + 5, sent := sent w @ [Get (get ent ''href'')]\<rparr>)"
  using assms
  by (subst poll_loop.simps)
     (auto simp: waiting_def poll_reply_def get_resource_def child_def
           split: sum.splits list.splits)

lemma poll_loop_stop:
  assumes "child catalog_item ''Entity'' = Inr ent"
    and "\<not> waiting (poll_reply cl (get ent ''href'') w 0)"
  shows "\<exists>y. poll_loop cl catalog_item w = Some y"
  using assms
  by (subst poll_loop.simps)
     (auto simp: waiting_def poll_reply_def get_resource_def child_def
           split: sum.splits list.splits)

lemma poll_reply_shift:
  "poll_reply cl href (w\<lparr>clock := c, sent := sent w @ [Get href]\<rparr>) k = poll_reply cl href w (Suc k)"
  by (simp add: poll_reply_def replicate_app_Cons_same)

lemma poll_loop_returns:
  assumes ent: "child catalog_item ''Entity'' = Inr ent"
  shows "\<not> waiting (poll_reply cl (get ent ''href'') w k) \<Longrightarrow>
         \<exists>y. poll_loop cl catalog_item w = Some y"
proof (induction k arbitrary: w)
  case 0
  then show ?case by (rule poll_loop_stop [OF ent])
next
  case (Suc k)
  show ?case
  proof (cases "waiting (poll_reply cl (get ent ''href'') w 0)")
    case False
    then show ?thesis by (rule poll_loop_stop [OF ent])
  next
    case True
    from Suc.prems have "\<not> waiting (poll_reply cl (get ent ''href'')
        (w\<lparr>clock := clock w + 5, sent := sent w @ [Get (get ent ''href'')]\<rparr>) k)"
      by (simp add: poll_reply_shift)
    from Suc.IH [OF this] show ?thesis
      by (simp add: poll_loop_step [OF ent True])
  qed
qed

lemma poll_loop_never_returns:
  assumes run: "poll_loop cl catalog_item w = Some y"
    and ent0: "child catalog_item ''Entity'' = Inr ent"
    and wait0: "\<forall>k. waiting (poll_reply cl (get ent ''href'') w k)"
  shows False
proof (rule poll_loop.raw_induct
    [where P = "\<lambda>cl catalog_item w y. \<forall>ent. child catalog_item ''Entity'' = Inr ent \<longrightarrow>
         (\<forall>k. waiting (poll_reply cl (get ent ''href'') w k)) \<longrightarrow> False", rule_format,
     OF _ run ent0 wait0 [rule_format]])
  fix f cl catalog_item w y ent k
  assume IH: "\<And>cl catalog_item w y ent.
        f cl catalog_item w = Some y \<Longrightarrow> child catalog_item ''Entity'' = Inr ent \<Longrightarrow>
        (\<And>k. waiting (poll_reply cl (get ent ''href'') w k)) \<Longrightarrow> False"
    and body: "(case child catalog_item ''Entity'' of
        Inl e \<Rightarrow> Some (Inl e, w\<lparr>clock := clock w + 5\<rparr>)
      | Inr ent \<Rightarrow>
          (case get_resource cl (get ent ''href'') (w\<lparr>clock := clock w + 5\<rparr>) of
             (Inl e, w1) \<Rightarrow> Some (Inl e, w1)
           | (Inr entity, w1) \<Rightarrow>
               (case child entity ''Files'' of
                  Inl e \<Rightarrow> Some (Inl e, w1)
                | Inr fs \<Rightarrow>
                    (case child fs ''File'' of
                       Inl e \<Rightarrow> Some (Inl e, w1)
                     | Inr f' \<Rightarrow>
                         if 1 < length (named fs ''File'') then Some (Inr entity, w1)
                         else f cl catalog_item w1)))) = Some y"
    and ent: "child catalog_item ''Entity'' = Inr ent"
    and wait: "\<And>k. waiting (poll_reply cl (get ent ''href'') w k)"
  from wait [of 0] ent body
  have call: "f cl catalog_item (w\<lparr>clock := clock w + 5, sent := sent w @ [Get (get ent ''href'')]\<rparr>) = Some y"
    by (auto simp: waiting_def poll_reply_def get_resource_def child_def
           split: sum.splits list.splits if_splits)
  show False
  proof (rule IH [OF call ent])
    fix k
    from wait [of "Suc k"] show "waiting (poll_reply cl (get ent ''href'')
        (w\<lparr>clock := clock w + 5, sent := sent w @ [Get (get ent ''href'')]\<rparr>) k)"
      by (simp add: poll_reply_shift)
  qed
qed


subsection \<open>What the steps leave unchanged\<close>



lemma same_fs_sent: "same_fs w (w\<lparr>sent := x\<rparr>)"
  by (simp add: same_fs_def)

lemma same_fs_is_dir: "same_fs w w' \<Longrightarrow> is_dir w' p = is_dir w p"
  by (simp add: same_fs_def is_dir_def abspath_def)

lemma get_resource_frame: "get_resource cl u w = (r, w') \<Longrightarrow> same_fs w w'"
  by (auto simp: get_resource_def same_fs_def)

lemma post_resource_frame: "post_resource cl u x m w = (r, w') \<Longrightarrow> same_fs w w'"
  by (auto simp: post_resource_def same_fs_def)








lemma write_abs_frame [simp]:
  "dirs (write_abs w q bs) = dirs w" "cwd (write_abs w q bs) = cwd w"
  "sent (write_abs w q bs) = sent w" "tmp_names (write_abs w q bs) = tmp_names w"
  "printed (write_abs w q bs) = printed w" "clock (write_abs w q bs) = clock w"
  "progress (write_abs w q bs) = progress w"
  by (simp_all add: write_abs_def)

lemma write_file_frame [simp]:
  "dirs (write_file w p bs) = dirs w" "cwd (write_file w p bs) = cwd w"
  "sent (write_file w p bs) = sent w" "tmp_names (write_file w p bs) = tmp_names w"
  "printed (write_file w p bs) = printed w" "clock (write_file w p bs) = clock w"
  "progress (write_file w p bs) = progress w"
  by (simp_all add: write_file_def)

lemma extractall_frame [simp]:
  "dirs (extractall ms p w) = dirs w" "cwd (extractall ms p w) = cwd w"
  "sent (extractall ms p w) = sent w" "tmp_names (extractall ms p w) = tmp_names w"
  "printed (extractall ms p w) = printed w" "clock (extractall ms p w) = clock w"
  "progress (extractall ms p w) = progress w"
  by (induction ms p w rule: extractall.induct) simp_all

lemma is_dir_extractall [simp]: "is_dir (extractall ms p w) d = is_dir w d"
  by (simp add: is_dir_def abspath_def)

lemma mkdtemp_is_dir:
  assumes "mkdtemp w = (Inr d, w')"
  shows "is_dir w' d" and "cwd w' = cwd w" and "sent w' = sent w"
    and "set (dirs w') = insert (abspath w d) (set (dirs w))"
    and "\<not> path_exists w d" and "printed w' = printed w" and "files w' = files w"
proof -
  from assms obtain n ns where dw: "dropWhile (\<lambda>n. path_exists w (join_str ''.'' n)) (tmp_names w) = n # ns"
    and d: "d = join_str ''.'' n"
    and w': "w' = w\<lparr>dirs := abspath w (join_str ''.'' n) # dirs w, tmp_names := ns\<rparr>"
    by (auto simp: mkdtemp_def split: list.splits)
  from w' d show "is_dir w' d" "cwd w' = cwd w" "sent w' = sent w"
    "set (dirs w') = insert (abspath w d) (set (dirs w))"
    "printed w' = printed w" "files w' = files w"
    by (simp_all add: is_dir_def abspath_def)
  from dw have "\<not> path_exists w (join_str ''.'' (hd (dropWhile (\<lambda>n. path_exists w (join_str ''.'' n)) (tmp_names w))))"
    using hd_dropWhile [of "\<lambda>n. path_exists w (join_str ''.'' n)" "tmp_names w"] by simp
  with dw d show "\<not> path_exists w d" by simp
qed


lemma rmtree_removes:
  assumes "rmtree p w = (Inr u, w')"
  shows "\<not> is_dir w' p" and "\<forall>q \<in> fst ` set (files w'). \<not> under (abspath w' p) q"
    and "set (dirs w') \<subseteq> set (dirs w) - {abspath w p}" and "sent w' = sent w" and "cwd w' = cwd w"
    and "printed w' = printed w"
  using assms by (auto simp: rmtree_def is_dir_def abspath_def under_def split: if_splits)

lemma rmtree_is_dir: "is_dir w p \<Longrightarrow> \<exists>w'. rmtree p w = (Inr (), w')"
  by (simp add: rmtree_def)


lemma get_catalog_frame: "get_catalog self name w = (r, w') \<Longrightarrow> same_fs w w'"
  by (auto simp: get_catalog_def same_fs_def split: prod.splits sum.splits option.splits
      dest!: get_resource_frame)

subsection \<open>The directory is removed on every return\<close>




lemmas fs_defs =
  abspath_def join_str_def lookup_file_def is_dir_def path_exists_def under_def os_stat_def
  read_file_def write_abs_def write_file_def mkdtemp_def rmtree_def chdir_def listdir_def
  tarfile_open_def regular_def

lemmas xml_defs = get_def named_def child_def each_def ns_def

lemma ex_get_catalog:
  "get_catalog ex_org ''c'' ex_world =
     (Inr ex_catalog, ex_world\<lparr>sent := [Get (PyStr ''org''), Get (PyStr ''cat'')]\<rparr>)"
  by (simp add: get_catalog_def get_resource_def ex_org_def ex_client_def ex_world_def)

lemma ex_mkdtemp:
  "mkdtemp (ex_world\<lparr>sent := [Get (PyStr ''org''), Get (PyStr ''cat'')]\<rparr>) =
     (Inr ''./tmp1'', ex_world\<lparr>dirs := [''/w/./tmp1'', ''/w''], tmp_names := [],
                               sent := [Get (PyStr ''org''), Get (PyStr ''cat'')]\<rparr>)"
  by (simp add: ex_world_def fs_defs)

lemma ex_params:
  "upload_params ''a.ova'' ''d'' =
     Inr (Elem ''UploadVAppTemplateParams'' [(''name'', ''a.ova'')] []
            [Elem ''Description'' [] ''d'' []])"
  by (simp add: upload_params_def xml_char_def)





lemma find_ovf_None: "\<forall>n \<in> set names. splitext_ext n \<noteq> ''.ovf'' \<Longrightarrow> find_ovf tempdir names = None"
  by (induction names) auto

text \<open>
  Claim C4, amended: when none of the extracted names has the extension \<open>.ovf\<close>,
  \<open>upload_ovf\<close> raises nothing. It returns 0, the directory is removed, nothing is printed
  and no request follows the catalog lookup.
\<close>

theorem upload_ovf_without_descriptor:
  assumes cat: "get_catalog self catalog_name w = (Inr catalog, w1)"
    and mk: "mkdtemp w1 = (Inr tempdir, w2)"
    and tar: "tarfile_open lib file_name w2 = Inr ova"
    and ls: "listdir (extractall ova tempdir w2) tempdir = Inr names"
    and none: "\<forall>n \<in> set names. splitext_ext n \<noteq> ''.ovf''"
  shows "\<exists>w'. upload_ovf self lib catalog_name file_name item_name description chunk_size
                 callback w = Some (Inr 0, w')
           \<and> \<not> is_dir w' tempdir \<and> sent w' = sent w1 \<and> printed w' = printed w"
proof -
  from mkdtemp_is_dir [OF mk] have "is_dir (extractall ova tempdir w2) tempdir" by simp
  from rmtree_is_dir [OF this] obtain w' where
    rm: "rmtree tempdir (extractall ova tempdir w2) = (Inr (), w')" by blast
  from cat mk tar ls find_ovf_None [OF none] rm
  have "upload_ovf self lib catalog_name file_name item_name description chunk_size
          callback w = Some (Inr 0, w')"
    by (simp add: upload_ovf_def upload_ovf_try_def)
  moreover from rmtree_removes [OF rm] mkdtemp_is_dir [OF mk] get_catalog_frame [OF cat]
  have "\<not> is_dir w' tempdir \<and> sent w' = sent w1 \<and> printed w' = printed w"
    by (auto simp: same_fs_def)
  ultimately show ?thesis by blast
qed

subsection \<open>Archives without a descriptor, and descriptors without files\<close>

text \<open>
  Claim C4 as stated expects an error for an archive without a descriptor. The example
  archive holds only \<open>disk.vmdk\<close>: the call returns 0.
\<close>

theorem upload_ovf_no_descriptor_counterexample:
  "upload_ovf ex_org ex_library_no_ovf ''c'' ''a.ova'' None ''d'' 2 False ex_world =
     Some (Inr 0, ex_world\<lparr>tmp_names := [], sent := [Get (PyStr ''org''), Get (PyStr ''cat'')]\<rparr>)"
  by (simp add: upload_ovf_def ex_get_catalog ex_mkdtemp upload_ovf_try_def)
     (simp add: ex_world_def fs_defs ex_library_no_ovf_def ex_library_def splitext_ext_def)

theorem upload_ovf_without_descriptor_witness:
  "\<exists>w'. upload_ovf ex_org ex_library_no_ovf ''c'' ''a.ova'' None ''d'' 2 False ex_world
            = Some (Inr 0, w')
        \<and> \<not> is_dir w' ''./tmp1'' \<and> sent w' = [Get (PyStr ''org''), Get (PyStr ''cat'')]
        \<and> printed w' = []"
proof -
  let ?w2 = "ex_world\<lparr>dirs := [''/w/./tmp1'', ''/w''], tmp_names := [],
                       sent := [Get (PyStr ''org''), Get (PyStr ''cat'')]\<rparr>"
  have tar: "tarfile_open ex_library_no_ovf ''a.ova'' ?w2 = Inr [(''disk.vmdk'', ''abc'')]"
    by (simp add: ex_world_def fs_defs ex_library_no_ovf_def ex_library_def)
  have ls: "listdir (extractall [(''disk.vmdk'', ''abc'')] ''./tmp1'' ?w2) ''./tmp1'' = Inr [''disk.vmdk'']"
    by (simp add: ex_world_def fs_defs)
  have none: "\<forall>n \<in> set [''disk.vmdk'']. splitext_ext n \<noteq> ''.ovf''"
    by (simp add: splitext_ext_def)
  from upload_ovf_without_descriptor [OF ex_get_catalog ex_mkdtemp tar ls none, of None "''d''" 2 False]
  show ?thesis by (simp add: ex_world_def)
qed

text \<open>
  Claim C8, amended: for a descriptor whose \<open>References\<close> have no \<open>File\<close>,
  \<open>upload_ovf\<close> does not succeed: the lookup \<open>References.File\<close> raises
  \<open>AttributeError\<close>, which is propagated after the directory is removed and before any
  request for the template is made.
\<close>

theorem upload_ovf_empty_manifest:
  assumes cat: "get_catalog self catalog_name w = (Inr catalog, w1)"
    and mk: "mkdtemp w1 = (Inr tempdir, w2)"
    and tar: "tarfile_open lib file_name w2 = Inr ova"
    and ls: "listdir (extractall ova tempdir w2) tempdir = Inr names"
    and found: "find_ovf tempdir names = Some ovf_file"
    and rd: "read_file (extractall ova tempdir w2) ovf_file = Inr bs"
    and parsed: "parse lib bs = Inr ovf"
    and refs: "child ovf ''References'' = Inr refs"
    and empty: "named refs ''File'' = []"
  shows "\<exists>w'. upload_ovf self lib catalog_name file_name item_name description chunk_size
                 callback w = Some (Inl (AttributeError ''File''), w')
           \<and> \<not> is_dir w' tempdir \<and> sent w' = sent w1"
proof -
  let ?w3 = "extractall ova tempdir w2"
  let ?e = "AttributeError ''File''"
  from rd obtain f where f: "os_stat ?w3 ovf_file = Inr f"
    by (auto simp: read_file_def os_stat_def split: option.splits)
  from f rd parsed refs empty
  have "upload_descriptor self lib catalog
          (case item_name of None \<Rightarrow> basename file_name | Some n \<Rightarrow> n)
          description chunk_size callback tempdir ovf_file ?w3 = Some (Inl ?e, ?w3)"
    by (simp add: upload_descriptor_def each_def)
  with tar ls found
  have tr: "upload_ovf_try self lib catalog file_name
          (case item_name of None \<Rightarrow> basename file_name | Some n \<Rightarrow> n)
          description chunk_size callback tempdir w2 = Some (Inl ?e, ?w3)"
    by (simp add: upload_ovf_try_def)
  from mkdtemp_is_dir [OF mk] have "is_dir (?w3\<lparr>printed := printed ?w3 @ [?e]\<rparr>) tempdir"
    by (simp add: is_dir_def abspath_def)
  from rmtree_is_dir [OF this] obtain w' where
    rm: "rmtree tempdir (?w3\<lparr>printed := printed ?w3 @ [?e]\<rparr>) = (Inr (), w')" by blast
  from cat mk tr rm
  have "upload_ovf self lib catalog_name file_name item_name description chunk_size
          callback w = Some (Inl ?e, w')"
    by (simp add: upload_ovf_def upload_ovf_except_def)
  moreover from rmtree_removes [OF rm] mkdtemp_is_dir [OF mk]
  have "\<not> is_dir w' tempdir \<and> sent w' = sent w1" by simp
  ultimately show ?thesis by blast
qed

text \<open>
  Claim C8 as stated expects success with the descriptor's size as total. The example
  archive holds a descriptor that lists no file: the call raises.
\<close>

theorem upload_ovf_empty_manifest_counterexample:
  "upload_ovf ex_org ex_library_empty ''c'' ''a.ova'' None ''d'' 2 False ex_world =
     Some (Inl (AttributeError ''File''),
           ex_world\<lparr>tmp_names := [], printed := [AttributeError ''File''],
                     sent := [Get (PyStr ''org''), Get (PyStr ''cat'')]\<rparr>)"
  by (simp add: upload_ovf_def ex_get_catalog ex_mkdtemp upload_ovf_try_def)
     (simp add: ex_world_def fs_defs ex_library_empty_def ex_library_def splitext_ext_def
        upload_descriptor_def upload_ovf_except_def ex_descriptor_empty_def xml_defs)

theorem upload_ovf_empty_manifest_witness:
  "\<exists>w'. upload_ovf ex_org ex_library_empty ''c'' ''a.ova'' (Some ''x'') ''d'' 2 False ex_world
            = Some (Inl (AttributeError ''File''), w')
        \<and> \<not> is_dir w' ''./tmp1'' \<and> sent w' = [Get (PyStr ''org''), Get (PyStr ''cat'')]"
proof -
  let ?w2 = "ex_world\<lparr>dirs := [''/w/./tmp1'', ''/w''], tmp_names := [],
                       sent := [Get (PyStr ''org''), Get (PyStr ''cat'')]\<rparr>"
  have tar: "tarfile_open ex_library_empty ''a.ova'' ?w2 = Inr [(''descriptor.ovf'', ''<xml/>'')]"
    by (simp add: ex_world_def fs_defs ex_library_empty_def ex_library_def)
  have ls: "listdir (extractall [(''descriptor.ovf'', ''<xml/>'')] ''./tmp1'' ?w2) ''./tmp1''
              = Inr [''descriptor.ovf'']"
    by (simp add: ex_world_def fs_defs)
  have found: "find_ovf ''./tmp1'' [''descriptor.ovf''] = Some ''./tmp1/descriptor.ovf''"
    by (simp add: splitext_ext_def join_str_def)
  have rd: "read_file (extractall [(''descriptor.ovf'', ''<xml/>'')] ''./tmp1'' ?w2)
              ''./tmp1/descriptor.ovf'' = Inr ''<xml/>''"
    by (simp add: ex_world_def fs_defs)
  have parsed: "parse ex_library_empty ''<xml/>'' = Inr ex_descriptor_empty"
    by (simp add: ex_library_empty_def ex_library_def)
  have refs: "child ex_descriptor_empty ''References'' = Inr (Elem ''References'' [] [] [])"
    by (simp add: ex_descriptor_empty_def xml_defs)
  have empty: "named (Elem ''References'' [] [] []) ''File'' = []"
    by (simp add: named_def)
  from upload_ovf_empty_manifest [OF ex_get_catalog ex_mkdtemp tar ls found rd parsed refs empty,
      of "Some ''x''" "''d''" 2 False]
  show ?thesis by (simp add: ex_world_def)
qed

subsection \<open>The poll has no deadline\<close>

lemma ex_item_entity:
  "child ex_item ''Entity'' = Inr (Elem ''Entity'' [(''href'', ''ent''), (''type'', ''T'')] [] [])"
  by (simp add: ex_item_def xml_defs)

lemma ex_entity_href:
  "get (Elem ''Entity'' [(''href'', ''ent''), (''type'', ''T'')] [] []) ''href'' = PyStr ''ent''"
  by (simp add: get_def)

lemma ex_stuck_waiting: "waiting (poll_reply ex_client_stuck (PyStr ''ent'') w k)"
  by (simp add: waiting_def poll_reply_def ex_client_stuck_def ex_client_def ex_entity_one_def
      ex_slot_def xml_defs)

lemma ex_stuck_poll: "poll_loop ex_client_stuck ex_item w = None"
proof (cases "poll_loop ex_client_stuck ex_item w")
  case (Some y)
  from poll_loop_never_returns [OF Some ex_item_entity] ex_stuck_waiting
  show ?thesis by (simp add: ex_entity_href)
qed simp

text \<open>
  Claim C6, amended: the poll of \<open>upload_ovf\<close> ends exactly when some reply is not an
  entity listing one \<open>File\<close>: a reply listing more than one, or a failed request or
  lookup. There is no deadline: if every reply lists exactly one, the loop runs forever.
\<close>

theorem poll_loop_returns_iff:
  assumes "child catalog_item ''Entity'' = Inr ent"
  shows "(\<exists>y. poll_loop cl catalog_item w = Some y)
     \<longleftrightarrow> (\<exists>k. \<not> waiting (poll_reply cl (get ent ''href'') w k))"
  using poll_loop_returns [OF assms] poll_loop_never_returns [OF _ assms] by blast

theorem poll_loop_returns_iff_witness:
  "(\<exists>y. poll_loop ex_client ex_item
           (ex_world\<lparr>sent := [Put (PyStr ''u0'') ex_descriptor ''text/xml'']\<rparr>) = Some y)
   \<and> \<not> (\<exists>y. poll_loop ex_client ex_item ex_world = Some y)"
proof -
  have go: "\<not> waiting (poll_reply ex_client (PyStr ''ent'')
              (ex_world\<lparr>sent := [Put (PyStr ''u0'') ex_descriptor ''text/xml'']\<rparr>) 0)"
    by (simp add: waiting_def poll_reply_def ex_client_def ex_entity_two_def ex_slot_def
        is_put_def xml_defs)
  have stay: "waiting (poll_reply ex_client (PyStr ''ent'') ex_world k)" for k
    by (simp add: waiting_def poll_reply_def ex_client_def ex_entity_one_def ex_slot_def
        is_put_def xml_defs ex_world_def list_ex_iff)
  from poll_loop_returns_iff [OF ex_item_entity, of ex_client
      "ex_world\<lparr>sent := [Put (PyStr ''u0'') ex_descriptor ''text/xml'']\<rparr>"]
    poll_loop_returns_iff [OF ex_item_entity, of ex_client ex_world] go stay
  show ?thesis by (auto simp: ex_entity_href)
qed

text \<open>
  Claim C6 as stated expects the poll to end for every sequence of replies. Against a
  server that goes on listing one transfer slot, \<open>upload_ovf\<close> never returns.
\<close>

theorem upload_ovf_poll_counterexample:
  "upload_ovf (ex_org\<lparr>client := ex_client_stuck\<rparr>) ex_library ''c'' ''a.ova'' None ''d'' 2 False
     ex_world = None"
proof -
  have cat: "get_catalog (ex_org\<lparr>client := ex_client_stuck\<rparr>) ''c'' ex_world =
     (Inr ex_catalog, ex_world\<lparr>sent := [Get (PyStr ''org''), Get (PyStr ''cat'')]\<rparr>)"
    by (simp add: get_catalog_def get_resource_def ex_org_def ex_client_stuck_def ex_client_def
        ex_world_def)
  have cl: "client (ex_org\<lparr>client := ex_client_stuck\<rparr>) = ex_client_stuck" by simp
  have post: "post_resource_reply ex_client_stuck l u x m = Inr ex_item" for l u x m
    by (simp add: ex_client_stuck_def ex_client_def)
  have put: "put_resource_reply ex_client_stuck l u x m = None" for l u x m
    by (simp add: ex_client_stuck_def ex_client_def)
  have got: "get_resource_reply ex_client_stuck l (PyStr ''ent'') = Inr ex_entity_one" for l
    by (simp add: ex_client_stuck_def)
  have tv: "entity_type_value ex_client_stuck t = entity_type_value ex_client t" for t
    by (simp add: ex_client_stuck_def)
  have tmpl: "upload_template (ex_org\<lparr>client := ex_client_stuck\<rparr>) ex_catalog ''a.ova''
        ''d'' chunk_size callback tempdir ovf members total_bytes w = None"
    for chunk_size callback tempdir ovf members total_bytes w
    by (simp add: upload_template_def ex_params str_add_def ex_catalog_def get_def
        post_resource_def post
        put_resource_def put get_resource_def got ex_item_entity [unfolded ex_item_def] ex_item_def
        ex_stuck_poll [unfolded ex_item_def] ex_entity_one_def ex_slot_def child_def named_def)
  show ?thesis
    by (simp add: upload_ovf_def cat ex_mkdtemp upload_ovf_try_def)
       (simp add: ex_world_def fs_defs ex_library_def splitext_ext_def upload_descriptor_def
          ex_descriptor_def xml_defs tmpl [unfolded ex_catalog_def] ex_catalog_def basename_def)
qed

section \<open>Properties of \<open>download_catalog_item\<close>\<close>

subsection \<open>What a successful template download went through\<close>

lemma write_abs_keys: "k \<in> fst ` set (files w) \<Longrightarrow> k \<in> fst ` set (files (write_abs w q bs))"
  by (auto simp: write_abs_def image_iff)

lemma download_from_uri_frame:
  assumes "download_from_uri cl uri file_name chunk_size sz callback w = (r, w')"
  shows "dirs w' = dirs w" and "cwd w' = cwd w" and "fst ` set (files w) \<subseteq> fst ` set (files w')"
proof -
  show "dirs w' = dirs w" "cwd w' = cwd w"
    using assms
    by (auto simp: download_from_uri_def write_file_def write_abs_def split: sum.splits prod.splits)
  show "fst ` set (files w) \<subseteq> fst ` set (files w')"
  proof
    fix k assume k: "k \<in> fst ` set (files w)"
    then have "k \<in> fst ` set (files (w\<lparr>sent := sent w @ [Download uri file_name chunk_size sz]\<rparr>))"
      by simp
    from write_abs_keys [OF this] k assms show "k \<in> fst ` set (files w')"
      by (auto simp: download_from_uri_def write_file_def split: sum.splits prod.splits)
  qed
qed

lemma download_members_frame:
  "download_members self tempdir transfer_uri chunk_size callback fs acc w = (r, w') \<Longrightarrow>
   dirs w' = dirs w \<and> cwd w' = cwd w \<and> fst ` set (files w) \<subseteq> fst ` set (files w')"
proof (induction fs arbitrary: acc w)
  case Nil
  then show ?case by simp
next
  case (Cons f fs)
  show ?case
  proof (cases "path_join tempdir (sf_href (source_file_of f))")
    case (Inl e)
    with Cons.prems show ?thesis by simp
  next
    case (Inr target_file)
    note tf = Inr
    show ?thesis
    proof (cases "add_str transfer_uri (sf_href (source_file_of f))")
      case (Inl e)
      with Cons.prems tf show ?thesis by simp
    next
      case (Inr uri)
      obtain rd w1 where dl: "download_from_uri (client self) (PyStr uri) target_file chunk_size
             (sf_size (source_file_of f)) callback w = (rd, w1)"
        by (cases "download_from_uri (client self) (PyStr uri) target_file chunk_size
             (sf_size (source_file_of f)) callback w") auto
      note fr = download_from_uri_frame [OF dl]
      show ?thesis
      proof (cases rd)
        case (Inl e)
        with Cons.prems tf Inr dl fr show ?thesis by simp
      next
        case (Inr num_bytes)
        show ?thesis
        proof (cases "num_bytes \<noteq> sf_size (source_file_of f)")
          case True
          with Cons.prems tf \<open>add_str transfer_uri (sf_href (source_file_of f)) = Inr uri\<close> dl Inr fr
          show ?thesis by simp
        next
          case False
          with Cons.prems tf \<open>add_str transfer_uri (sf_href (source_file_of f)) = Inr uri\<close> dl Inr
          have "download_members self tempdir transfer_uri chunk_size callback fs
                 (acc @ [source_file_of f]) w1 = (r, w')" by simp
          from Cons.IH [OF this] fr show ?thesis by auto
        qed
      qed
    qed
  qed
qed

lemma join_absolute: "absolute b \<Longrightarrow> join_str a b = b"
  by (simp add: join_str_def absolute_def)

lemma tar_add_name: "tar_add w (PyStr n) = Inr m \<Longrightarrow> fst m = n"
  by (auto simp: tar_add_def split: sum.splits)

lemma download_template_try_success:
  assumes run: "download_template_try self lib ovf transfer_uri file_name chunk_size callback w
                  = (td, Inr u, w2)"
  shows "\<exists>tempdir wm wp ms. td = Some tempdir \<and> mkdtemp w = (Inr tempdir, wm)
      \<and> dirs wp = dirs wm \<and> cwd wp = cwd wm
      \<and> abspath wm (join_str tempdir ''descriptor.ovf'') \<in> fst ` set (files wp)
      \<and> w2 = write_abs ((write_file wp file_name [])\<lparr>cwd := abspath wp tempdir\<rparr>)
                (abspath wp file_name) (tar_archive lib ms)
      \<and> ms \<noteq> [] \<and> fst (hd ms) = ''descriptor.ovf''"
proof -
  obtain rm wm where mk: "mkdtemp w = (rm, wm)" by (cases "mkdtemp w") auto
  with run obtain tempdir where rm: "rm = Inr tempdir" and td: "td = Some tempdir"
    by (cases rm) (auto simp: download_template_try_def)
  let ?w0 = "write_file wm (join_str tempdir ''descriptor.ovf'') (tostring lib ovf)"
  from run mk rm obtain refs where refs: "child ovf ''References'' = Inr refs"
    by (cases "child ovf ''References''") (auto simp: download_template_try_def)
  from run mk rm refs obtain fs where fs: "each refs ''File'' = Inr fs"
    by (cases "each refs ''File''") (auto simp: download_template_try_def)
  obtain rd wp where dm: "download_members self tempdir transfer_uri chunk_size callback fs [] ?w0
      = (rd, wp)"
    by (cases "download_members self tempdir transfer_uri chunk_size callback fs [] ?w0") auto
  with run mk rm refs fs obtain members where rd: "rd = Inr members"
    and pk: "package lib file_name tempdir members wp = (Inr u, w2)"
    by (cases rd) (auto simp: download_template_try_def)
  from download_members_frame [OF dm]
  have fr: "dirs wp = dirs wm" "cwd wp = cwd wm" "fst ` set (files ?w0) \<subseteq> fst ` set (files wp)"
    by simp_all
  have "abspath wm (join_str tempdir ''descriptor.ovf'') \<in> fst ` set (files ?w0)"
    by (simp add: write_file_def write_abs_def)
  with fr have key: "abspath wm (join_str tempdir ''descriptor.ovf'') \<in> fst ` set (files wp)"
    by blast
  let ?wc = "(write_file wp file_name [])\<lparr>cwd := abspath wp tempdir\<rparr>"
  from pk have cd: "chdir tempdir (write_file wp file_name []) = (Inr (), ?wc)"
    by (auto simp: package_def chdir_def abspath_def write_file_def write_abs_def is_dir_def
        split: if_splits)
  from pk cd obtain m where m: "tar_add ?wc (PyStr ''descriptor.ovf'') = Inr m"
    by (cases "tar_add ?wc (PyStr ''descriptor.ovf'')") (auto simp: package_def)
  from pk cd m obtain ms where ms: "tar_add_all ?wc members = Inr ms"
    by (cases "tar_add_all ?wc members") (auto simp: package_def)
  from pk cd m ms have w2: "w2 = write_abs ?wc (abspath wp file_name) (tar_archive lib (m # ms))"
    by (simp add: package_def)
  from td mk rm fr key w2 tar_add_name [OF m] show ?thesis
    by (intro exI [of _ tempdir] exI [of _ wm] exI [of _ wp] exI [of _ "m # ms"]) simp
qed

lemma download_template_success:
  assumes run: "download_template self lib item file_name chunk_size callback w = (Inr n, w')"
    and ab: "absolute (cwd w)"
  shows "\<exists>tempdir ms. \<not> path_exists w tempdir \<and> is_dir w' tempdir
      \<and> set (dirs w') = insert (abspath w tempdir) (set (dirs w)) \<and> cwd w' = cwd w
      \<and> lookup_file w' (join_str tempdir ''descriptor.ovf'') \<noteq> None
      \<and> os_stat w' file_name = Inr (regular (tar_archive lib ms))
      \<and> n = PyInt (int (length (tar_archive lib ms)))
      \<and> ms \<noteq> [] \<and> fst (hd ms) = ''descriptor.ovf''"
proof -
  let ?tv = "entity_type_value (client self) TEXT_XML"
  let ?w1 = "w\<lparr>sent := sent w @ [LinkedResource item DOWNLOAD_DEFAULT ?tv]\<rparr>"
  from run obtain ovf where glr: "get_linked_resource_reply (client self) (sent w) item
      DOWNLOAD_DEFAULT ?tv = Inr ovf"
    by (cases "get_linked_resource_reply (client self) (sent w) item DOWNLOAD_DEFAULT ?tv")
       (auto simp: download_template_def get_linked_resource_def)
  from run glr obtain l where fl: "find_link (client self) item DOWNLOAD_DEFAULT ?tv = Inr l"
    by (cases "find_link (client self) item DOWNLOAD_DEFAULT ?tv")
       (auto simp: download_template_def get_linked_resource_def)
  from run glr fl obtain uri where uri: "link_href l = PyStr uri"
    by (cases "link_href l") (auto simp: download_template_def get_linked_resource_def)
  obtain td r w2 where tr: "download_template_try self lib ovf
      (replace ''/descriptor.ovf'' ''/'' uri) file_name chunk_size callback ?w1 = (td, r, w2)"
    by (cases "download_template_try self lib ovf
      (replace ''/descriptor.ovf'' ''/'' uri) file_name chunk_size callback ?w1") auto
  from run glr fl uri tr obtain u where fin: "download_finally td (cwd w) file_name (PyInt 0) w2 = (Inr n, w')"
    and r: "r = Inr u"
    by (auto simp: download_template_def get_linked_resource_def split: prod.splits sum.splits)
  from download_template_try_success [OF tr [unfolded r]] obtain tempdir wm wp ms where
    td: "td = Some tempdir" and mk: "mkdtemp ?w1 = (Inr tempdir, wm)"
    and wp: "dirs wp = dirs wm" "cwd wp = cwd wm"
    and key: "abspath wm (join_str tempdir ''descriptor.ovf'') \<in> fst ` set (files wp)"
    and w2: "w2 = write_abs ((write_file wp file_name [])\<lparr>cwd := abspath wp tempdir\<rparr>)
                (abspath wp file_name) (tar_archive lib ms)"
    and ms: "ms \<noteq> []" "fst (hd ms) = ''descriptor.ovf''"
    by blast
  from mkdtemp_is_dir [OF mk]
  have wm: "cwd wm = cwd w" "set (dirs wm) = insert (abspath w tempdir) (set (dirs w))"
    and fresh: "\<not> path_exists w tempdir"
    by (simp_all add: abspath_def path_exists_def is_dir_def lookup_file_def)
  from fin td obtain f where w': "w' = w2\<lparr>cwd := abspath w2 (cwd w)\<rparr>"
    and st: "os_stat w' file_name = Inr f" and n: "n = PyInt (int (st_size f))"
    by (auto simp: download_finally_def chdir_def split: if_splits sum.splits)
  from ab have home: "abspath w2 (cwd w) = cwd w" by (simp add: abspath_def join_absolute)
  with w' home have cwd': "cwd w' = cwd w" by simp
  from w' w2 wp have dirs': "dirs w' = dirs wm" by simp
  have files': "files w' = files w2" using w' by simp
  have K: "abspath w' file_name = abspath wp file_name"
    using cwd' wp wm by (simp add: abspath_def)
  have "lookup_file w' file_name = Some (regular (tar_archive lib ms))"
    unfolding lookup_file_def K files' by (simp add: w2 write_abs_def)
  with st have f: "f = regular (tar_archive lib ms)" by (simp add: os_stat_def)
  have "abspath w' (join_str tempdir ''descriptor.ovf'') \<in> fst ` set (files w')"
  proof -
    have "abspath w' (join_str tempdir ''descriptor.ovf'') = abspath wm (join_str tempdir ''descriptor.ovf'')"
      using cwd' wm by (simp add: abspath_def)
    moreover from key have "abspath wm (join_str tempdir ''descriptor.ovf'')
        \<in> fst ` set (files (write_file wp file_name []))"
      unfolding write_file_def by (rule write_abs_keys)
    then have "abspath wm (join_str tempdir ''descriptor.ovf'')
        \<in> fst ` set (files ((write_file wp file_name [])\<lparr>cwd := abspath wp tempdir\<rparr>))" by simp
    then have "abspath wm (join_str tempdir ''descriptor.ovf'') \<in> fst ` set (files w2)"
      unfolding w2 by (rule write_abs_keys)
    ultimately show ?thesis using files' by simp
  qed
  then have desc: "lookup_file w' (join_str tempdir ''descriptor.ovf'') \<noteq> None"
    by (simp add: lookup_file_def map_of_eq_None_iff)
  have "is_dir w' tempdir"
    using cwd' dirs' wm by (simp add: is_dir_def abspath_def)
  with fresh dirs' wm cwd' desc st f n ms show ?thesis
    by (intro exI [of _ tempdir] exI [of _ ms]) (simp add: regular_def)
qed

lemma wait_for_success_frame: "wait_for_success cl task w = (r, w') \<Longrightarrow> same_fs w w'"
  by (auto simp: wait_for_success_def same_fs_def split: option.splits)

lemma get_catalog_item_frame:
  "get_catalog_item self name item_name w = (r, w') \<Longrightarrow> same_fs w w'"
  by (auto simp: get_catalog_item_def same_fs_def split: prod.splits sum.splits option.splits
      dest!: get_catalog_frame get_resource_frame)

lemma download_catalog_item_template:
  assumes tb: "template_branch self catalog_name item_name w"
    and run: "download_catalog_item self lib catalog_name item_name file_name chunk_size
                callback w = (Inr n, w')"
  shows "\<exists>item1 w4. same_fs w w4 \<and>
           download_template self lib item1 file_name chunk_size callback w4 = (Inr n, w')"
proof -
  from tb obtain item w1 ent where gi: "get_catalog_item self catalog_name item_name w = (Inr item, w1)"
    and ent: "child item ''Entity'' = Inr ent"
    and ty: "get ent ''type'' \<noteq> PyStr (entity_type_value (client self) MEDIA)"
      "get ent ''type'' = PyStr (entity_type_value (client self) VAPP_TEMPLATE)"
    by (auto simp: template_branch_def split: prod.splits sum.splits)
  from run gi ent obtain enable_href where eh: "str_add (get ent ''href'') ''/action/enableDownload'' = Inr enable_href"
    by (cases "str_add (get ent ''href'') ''/action/enableDownload''")
       (auto simp: download_catalog_item_def)
  obtain r2 w2 where po: "post_resource (client self) enable_href None PyNone w1 = (r2, w2)"
    by (cases "post_resource (client self) enable_href None PyNone w1") auto
  with run gi ent eh obtain task where r2: "r2 = Inr task"
    by (cases r2) (auto simp: download_catalog_item_def)
  obtain r3 w3 where wt: "wait_for_success (client self) task w2 = (r3, w3)"
    by (cases "wait_for_success (client self) task w2") auto
  with run gi ent eh po r2 obtain u where r3: "r3 = Inr u"
    by (cases r3) (auto simp: download_catalog_item_def)
  obtain r4 w4 where ge: "get_resource (client self) (get ent ''href'') w3 = (r4, w4)"
    by (cases "get_resource (client self) (get ent ''href'') w3") auto
  with run gi ent eh po r2 wt r3 obtain item1 where r4: "r4 = Inr item1"
    by (cases r4) (auto simp: download_catalog_item_def)
  from run gi ent eh po r2 wt r3 ge r4 ty
  have dt: "download_template self lib item1 file_name chunk_size callback w4 = (Inr n, w')"
    by (simp add: download_catalog_item_def)
  from get_catalog_item_frame [OF gi] post_resource_frame [OF po] wait_for_success_frame [OF wt]
    get_resource_frame [OF ge]
  have "same_fs w w4" by (simp add: same_fs_def)
  with dt show ?thesis by blast
qed

subsection \<open>The example download\<close>

lemmas download_defs =
  download_catalog_item_def get_catalog_item_def get_catalog_def download_template_def
  download_template_try_def download_finally_def package_def tar_add_def
  download_from_uri_def get_resource_def post_resource_def wait_for_success_def
  get_linked_resource_def str_add_def add_str_def py_str_def path_join_def source_file_of_def

lemma ex_echo_download:
  "download_catalog_item (ex_org\<lparr>client := ex_client_echo\<rparr>) ex_library ''c'' ''it''
     ''out.ova'' 2 False ex_world = (Inr (PyInt 11), ex_downloaded)"
  by (simp add: download_defs ex_org_def ex_client_echo_def ex_client_def ex_library_def
      ex_world_def ex_catalog_def ex_item_def ex_descriptor_def xml_defs fs_defs
      ex_downloaded_def ex_entity_one_def ex_slot_def is_put_def)

lemma ex_echo_branch:
  "template_branch (ex_org\<lparr>client := ex_client_echo\<rparr>) ''c'' ''it'' ex_world"
  by (simp add: template_branch_def get_catalog_item_def get_catalog_def get_resource_def
      ex_org_def ex_client_echo_def ex_client_def ex_world_def ex_catalog_def ex_item_def
      xml_defs)

lemma ex_absolute: "absolute (cwd ex_world)"
  by (simp add: absolute_def ex_world_def)

subsection \<open>The directory stays\<close>

text \<open>
  Claim C9, amended: when the template branch of \<open>download_catalog_item\<close> completes
  normally, the temporary directory is not removed. The directory that \<open>mkdtemp\<close> made
  is the one new directory of the final world and still holds \<open>descriptor.ovf\<close>; only
  the working directory is set back.
\<close>

theorem download_catalog_item_keeps_workspace:
  assumes tb: "template_branch self catalog_name item_name w"
    and ab: "absolute (cwd w)"
    and run: "download_catalog_item self lib catalog_name item_name file_name chunk_size
                callback w = (Inr n, w')"
  shows "\<exists>tempdir. \<not> is_dir w tempdir \<and> is_dir w' tempdir
      \<and> set (dirs w') = insert (abspath w tempdir) (set (dirs w))
      \<and> lookup_file w' (join_str tempdir ''descriptor.ovf'') \<noteq> None
      \<and> cwd w' = cwd w"
proof -
  from download_catalog_item_template [OF tb run] obtain item1 w4 where
    fs: "same_fs w w4"
    and dt: "download_template self lib item1 file_name chunk_size callback w4 = (Inr n, w')"
    by blast
  from fs ab have "absolute (cwd w4)" by (simp add: same_fs_def)
  from download_template_success [OF dt this] fs show ?thesis
    by (auto simp: same_fs_def path_exists_def is_dir_def abspath_def)
qed

theorem download_catalog_item_keeps_workspace_witness:
  "\<exists>tempdir. \<not> is_dir ex_world tempdir \<and> is_dir ex_downloaded tempdir
      \<and> set (dirs ex_downloaded) = insert (abspath ex_world tempdir) (set (dirs ex_world))
      \<and> lookup_file ex_downloaded (join_str tempdir ''descriptor.ovf'') \<noteq> None
      \<and> cwd ex_downloaded = cwd ex_world"
  using download_catalog_item_keeps_workspace [OF ex_echo_branch ex_absolute ex_echo_download]
  by simp

text \<open>
  Claim C9 as stated expects the directory to be gone on normal completion. In the example
  the call returns 11 and \<open>./tmp1\<close> is still a directory.
\<close>

theorem download_catalog_item_workspace_counterexample:
  "download_catalog_item (ex_org\<lparr>client := ex_client_echo\<rparr>) ex_library ''c'' ''it''
     ''out.ova'' 2 False ex_world = (Inr (PyInt 11), ex_downloaded)
   \<and> is_dir ex_downloaded ''./tmp1''"
  by (simp add: ex_echo_download) (simp add: ex_downloaded_def ex_world_def fs_defs)

subsection \<open>The value returned\<close>

text \<open>
  Claim C10: when the template branch completes normally, the value returned is the size
  that \<open>os.stat\<close> reports for the file at the output path in the final world, and that
  file is the archive written by the packaging step, whose first member is
  \<open>descriptor.ovf\<close>. It is the length of the archive, not a sum of downloaded bytes: in
  the example, three bytes are downloaded and 11 is returned.
\<close>

theorem download_catalog_item_returns_archive_size:
  assumes tb: "template_branch self catalog_name item_name w"
    and ab: "absolute (cwd w)"
    and run: "download_catalog_item self lib catalog_name item_name file_name chunk_size
                callback w = (Inr n, w')"
  shows "\<exists>ms. os_stat w' file_name = Inr (regular (tar_archive lib ms))
      \<and> n = PyInt (int (length (tar_archive lib ms)))
      \<and> ms \<noteq> [] \<and> fst (hd ms) = ''descriptor.ovf''"
proof -
  from download_catalog_item_template [OF tb run] obtain item1 w4 where
    fs: "same_fs w w4"
    and dt: "download_template self lib item1 file_name chunk_size callback w4 = (Inr n, w')"
    by blast
  from fs ab have "absolute (cwd w4)" by (simp add: same_fs_def)
  from download_template_success [OF dt this] show ?thesis by blast
qed

theorem download_catalog_item_returns_archive_size_witness:
  "\<exists>ms. os_stat ex_downloaded ''out.ova'' = Inr (regular (tar_archive ex_library ms))
      \<and> PyInt 11 = PyInt (int (length (tar_archive ex_library ms)))
      \<and> ms \<noteq> [] \<and> fst (hd ms) = ''descriptor.ovf''"
  using download_catalog_item_returns_archive_size [OF ex_echo_branch ex_absolute ex_echo_download]
  by simp

subsection \<open>The size check\<close>

text \<open>
  Claim C3 says that the download fails with the incomplete-download error exactly when
  the bytes downloaded for an entry differ from its declared size. In the example the
  descriptor declares \<open>size="3"\<close> for \<open>disk.vmdk\<close> and the client stores three bytes and
  returns the integer 3. The comparison is between that integer and the attribute, a
  string, so it fails: with an older file at the output path the call raises
  \<open>download incomplete for file disk.vmdk\<close>; with no file there, the \<open>finally\<close> clause's
  \<open>os.stat\<close> raises instead and that exception is the one the caller sees.
\<close>

theorem download_incomplete_although_sizes_agree:
  "fst (download_catalog_item ex_org ex_library ''c'' ''it'' ''old.ova'' 2 False ex_world)
     = Inl (Exception ''download incomplete for file disk.vmdk'')
   \<and> fst (download_catalog_item ex_org ex_library ''c'' ''it'' ''out.ova'' 2 False ex_world)
     = Inl (OSError ''out.ova'')"
  by (simp add: download_defs ex_org_def ex_client_def ex_library_def
      ex_world_def ex_catalog_def ex_item_def ex_descriptor_def xml_defs fs_defs)

end
